theory Spec2Isabelle
  imports Main "HOL-Library.Multiset"
begin


section \<open>Values, failures and the persisted tables\<close>

text \<open>
  Identifiers are the opaque strings produced by \<^verbatim>\<open>withId\<close>; that helper is not
  part of the sources at hand, so every operation that calls it takes the generated
  identifiers as arguments, and takes them to be fresh.

  A \<^verbatim>\<open>Date\<close> object is its time value (milliseconds since the epoch), or the invalid
  date, whose time value is not a number.  A stored timestamp is always a time value.
\<close>

type_synonym ident = string
type_synonym timestamp = int

datatype date = Date timestamp | InvalidDate

text \<open>
  A property of a request object that may be missing (\<^verbatim>\<open>undefined\<close>), explicitly
  \<^verbatim>\<open>null\<close>, or present.
\<close>

datatype 'a optional = Undefined | Null | Present 'a

text \<open>
  Everything the services throw.  \<open>PrismaError\<close> is an error of the database client (a
  write it refuses or the database refuses); its message in the model is a description,
  not the client's wording.  \<open>Thrown\<close> is a thrown value that is no \<^verbatim>\<open>Error\<close>.
\<close>

datatype exn =
    BadRequestException string
  | ConflictException string
  | NotFoundException string
  | UnauthorizedException string
  | PrismaError string
  | Error string
  | Thrown

text \<open>The optional \<^verbatim>\<open>description\<close> of a content is \<open>None\<close> when it is left out.\<close>

record ActivityContentDto =
  dto_lang :: string
  dto_title :: string
  dto_description :: "string option"

record CreateActivityDto =
  c_name :: string
  c_slug :: string
  c_startAt :: date
  c_endAt :: date
  c_supportedLanguages :: "string list"
  c_closedAt :: "date optional"
  c_contents :: "ActivityContentDto list"

text \<open>
  \<^verbatim>\<open>UpdateActivityDto\<close> is the partial type of the create payload.  The source tests
  every field but \<^verbatim>\<open>closedAt\<close> for truthiness only, where \<^verbatim>\<open>undefined\<close> and
  \<^verbatim>\<open>null\<close> behave alike: those fields are options (\<open>None\<close> for both).
  \<^verbatim>\<open>closedAt\<close> is compared with \<^verbatim>\<open>undefined\<close>, so it keeps all three cases.
\<close>

record UpdateActivityDto =
  u_name :: "string option"
  u_slug :: "string option"
  u_startAt :: "date option"
  u_endAt :: "date option"
  u_supportedLanguages :: "string list option"
  u_closedAt :: "date optional"
  u_contents :: "ActivityContentDto list option"

record Activity =
  a_id :: ident
  a_name :: string
  a_slug :: string
  a_startAt :: timestamp
  a_endAt :: timestamp
  a_closedAt :: "timestamp option"
  a_supportedLanguages :: "string list"

record ActivityContent =
  ac_id :: ident
  ac_activityId :: ident
  ac_lang :: string
  ac_title :: string
  ac_description :: "string option"

text \<open>
  The two tables behind \<^verbatim>\<open>prisma.activity\<close> and \<^verbatim>\<open>prisma.activityContent\<close>, rows in
  insertion order.  The timestamps the database maintains by itself are left out.
\<close>

record store =
  activities :: "Activity list"
  activityContents :: "ActivityContent list"

section \<open>JavaScript helpers\<close>

text \<open>\<^verbatim>\<open>Array.prototype.join\<close> on strings.\<close>

fun join :: "string \<Rightarrow> string list \<Rightarrow> string" where
  "join sep [] = []"
| "join sep [x] = x"
| "join sep (x # y # ys) = x @ sep @ join sep (y # ys)"

text \<open>\<^verbatim>\<open>Array.prototype.indexOf\<close>: the first position of the element, \<open>-1\<close> if there is none.\<close>

fun indexOfFrom :: "nat \<Rightarrow> 'a list \<Rightarrow> 'a \<Rightarrow> int" where
  "indexOfFrom i [] x = -1"
| "indexOfFrom i (y # ys) x = (if y = x then int i else indexOfFrom (Suc i) ys x)"

definition indexOf :: "'a list \<Rightarrow> 'a \<Rightarrow> int" where
  "indexOf xs x = indexOfFrom 0 xs x"

text \<open>\<^verbatim>\<open>filter((x, index) => p(x, index))\<close>: the elements paired with their positions.\<close>

definition filterIndexed :: "('a \<Rightarrow> nat \<Rightarrow> bool) \<Rightarrow> 'a list \<Rightarrow> 'a list" where
  "filterIndexed p xs = map fst (filter (\<lambda>(x, i). p x i) (zip xs [0..<length xs]))"

text \<open>
  The relational operators on two dates compare the time values, and are false as soon as
  one of them is not a number.
\<close>

definition dateLe :: "date \<Rightarrow> date \<Rightarrow> bool" where
  "dateLe a b = (case a of Date x \<Rightarrow> (case b of Date y \<Rightarrow> x \<le> y | InvalidDate \<Rightarrow> False)
                          | InvalidDate \<Rightarrow> False)"

definition dateGe :: "date \<Rightarrow> date \<Rightarrow> bool" where
  "dateGe a b = (case a of Date x \<Rightarrow> (case b of Date y \<Rightarrow> x \<ge> y | InvalidDate \<Rightarrow> False)
                          | InvalidDate \<Rightarrow> False)"

text \<open>
  \<^verbatim>\<open>String.prototype.toLowerCase\<close>.  On a string of ASCII characters it lowers the
  letters A to Z and keeps the rest.  What it does to a string with other characters is
  given from outside, as the argument \<open>lowerOther\<close>.
\<close>

definition isAscii :: "char \<Rightarrow> bool" where
  "isAscii c = ((of_char c :: nat) < 128)"

definition lowerChar :: "char \<Rightarrow> char" where
  "lowerChar c =
     (let n = (of_char c :: nat)
      in if 65 \<le> n \<and> n \<le> 90 then char_of (n + 32) else c)"

definition toLowerCase :: "(string \<Rightarrow> string) \<Rightarrow> string \<Rightarrow> string" where
  "toLowerCase lowerOther s = (if list_all isAscii s then map lowerChar s else lowerOther s)"

section \<open>ActivityService: validation\<close>

definition validateDates :: "date \<Rightarrow> date \<Rightarrow> date optional \<Rightarrow> exn + unit" where
  "validateDates startAt endAt closedAt =
     (if dateLe endAt startAt
      then Inl (BadRequestException ''End date must be after start date'')
      else (case closedAt of
              Present c \<Rightarrow>
                if dateGe c startAt
                then Inl (BadRequestException ''Closed date must be before start date'')
                else Inr ()
            | _ \<Rightarrow> Inr ()))"

text \<open>\<^verbatim>\<open>prisma.activity.findUnique({ where: { slug } })\<close>\<close>

definition findUniqueBySlug :: "store \<Rightarrow> string \<Rightarrow> Activity option" where
  "findUniqueBySlug st slug = find (\<lambda>a. a_slug a = slug) (activities st)"

text \<open>\<^verbatim>\<open>prisma.activity.findUnique({ where: { id } })\<close>\<close>

definition findUniqueById :: "store \<Rightarrow> ident \<Rightarrow> Activity option" where
  "findUniqueById st i = find (\<lambda>a. a_id a = i) (activities st)"

definition checkSlugExists :: "store \<Rightarrow> string \<Rightarrow> exn + unit" where
  "checkSlugExists st slug =
     (case findUniqueBySlug st slug of
        Some existing \<Rightarrow>
          Inl (ConflictException
                 (''Activity with slug '' @ [CHR 0x22] @ slug @ [CHR 0x22] @ '' already exists''))
      | None \<Rightarrow> Inr ())"

definition unsupportedLangsOf :: "string list \<Rightarrow> string list \<Rightarrow> string list" where
  "unsupportedLangsOf contentLangs supportedLanguages =
     filter (\<lambda>lang. lang \<notin> set supportedLanguages) contentLangs"

definition duplicateLangsOf :: "string list \<Rightarrow> string list" where
  "duplicateLangsOf contentLangs =
     filterIndexed (\<lambda>lang index. indexOf contentLangs lang \<noteq> int index) contentLangs"

definition validateContentLanguages :: "ActivityContentDto list \<Rightarrow> string list \<Rightarrow> exn + unit" where
  "validateContentLanguages contents supportedLanguages =
     (let contentLangs = map dto_lang contents;
          unsupportedLangs = unsupportedLangsOf contentLangs supportedLanguages
      in if length unsupportedLangs > 0
         then Inl (BadRequestException
                     (''Contents contain unsupported languages: '' @ join '', '' unsupportedLangs))
         else (let duplicateLangs = duplicateLangsOf contentLangs
               in if length duplicateLangs > 0
                  then Inl (BadRequestException
                              (''Duplicate languages in contents: '' @ join '', '' duplicateLangs))
                  else Inr ()))"

section \<open>ActivityService: create\<close>

text \<open>
  \<^verbatim>\<open>dto.closedAt || null\<close>: a missing or null closure time is stored as null.
\<close>

definition orNull :: "'a optional \<Rightarrow> 'a option" where
  "orNull v = (case v of Present x \<Rightarrow> Some x | _ \<Rightarrow> None)"

definition newContent :: "ident \<Rightarrow> ident \<Rightarrow> ActivityContentDto \<Rightarrow> ActivityContent" where
  "newContent activityId cid content =
     \<lparr>ac_id = cid, ac_activityId = activityId, ac_lang = dto_lang content,
      ac_title = dto_title content, ac_description = dto_description content\<rparr>"

text \<open>
  The activity row of the \<^verbatim>\<open>data\<close>.  The client refuses an invalid date, so there is
  no row then.
\<close>

definition activityRow ::
  "ident \<Rightarrow> CreateActivityDto \<Rightarrow> timestamp \<Rightarrow> timestamp \<Rightarrow> timestamp option \<Rightarrow> Activity" where
  "activityRow aid dto s e closedAt =
     \<lparr>a_id = aid, a_name = c_name dto, a_slug = c_slug dto, a_startAt = s, a_endAt = e,
      a_closedAt = closedAt, a_supportedLanguages = c_supportedLanguages dto\<rparr>"

definition newActivity :: "ident \<Rightarrow> CreateActivityDto \<Rightarrow> Activity option" where
  "newActivity aid dto =
     (case c_startAt dto of
        InvalidDate \<Rightarrow> None
      | Date s \<Rightarrow>
     (case c_endAt dto of
        InvalidDate \<Rightarrow> None
      | Date e \<Rightarrow>
     (case orNull (c_closedAt dto) of
        None \<Rightarrow> Some (activityRow aid dto s e None)
      | Some InvalidDate \<Rightarrow> None
      | Some (Date c) \<Rightarrow> Some (activityRow aid dto s e (Some c)))))"

text \<open>
  The widths of the columns, from the migration: \<^verbatim>\<open>name\<close> and \<^verbatim>\<open>slug\<close> are
  \<^verbatim>\<open>VARCHAR(255)\<close>, a content's \<^verbatim>\<open>lang\<close> is \<^verbatim>\<open>VARCHAR(15)\<close> and its \<^verbatim>\<open>title\<close>
  \<^verbatim>\<open>VARCHAR(255)\<close>.
\<close>

definition fitsActivity :: "string \<Rightarrow> string \<Rightarrow> bool" where
  "fitsActivity name slug = (length name \<le> 255 \<and> length slug \<le> 255)"

definition fitsContent :: "ActivityContentDto \<Rightarrow> bool" where
  "fitsContent content = (length (dto_lang content) \<le> 15 \<and> length (dto_title content) \<le> 255)"

text \<open>
  The nested insert of \<^verbatim>\<open>prisma.activity.create\<close>: one activity row and its content
  rows, all or nothing.  \<open>aid\<close> is the identifier \<^verbatim>\<open>withId\<close> gives the activity,
  \<open>cids k\<close> the one it gives the \<open>k\<close>-th content.  \<open>refusal\<close> is any other refusal
  of this insert by the database, given from outside.
\<close>

definition prismaActivityCreate ::
  "store \<Rightarrow> CreateActivityDto \<Rightarrow> ident \<Rightarrow> (nat \<Rightarrow> ident) \<Rightarrow> string option \<Rightarrow>
     exn + (Activity \<times> ActivityContent list) \<times> store" where
  "prismaActivityCreate st dto aid cids refusal =
     (case newActivity aid dto of
        None \<Rightarrow> Inl (PrismaError ''invalid date'')
      | Some a \<Rightarrow>
          if \<not> (fitsActivity (c_name dto) (c_slug dto) \<and> list_all fitsContent (c_contents dto))
          then Inl (PrismaError ''value too long for the column'')
          else (case refusal of
                  Some m \<Rightarrow> Inl (PrismaError m)
                | None \<Rightarrow>
                    (let cs = map (\<lambda>(k, content). newContent aid (cids k) content)
                                  (enumerate 0 (c_contents dto))
                     in Inr ((a, cs),
                             st\<lparr>activities := activities st @ [a],
                                activityContents := activityContents st @ cs\<rparr>))))"

text \<open>The result is the outcome together with the store afterwards.\<close>

definition create ::
  "store \<Rightarrow> CreateActivityDto \<Rightarrow> ident \<Rightarrow> (nat \<Rightarrow> ident) \<Rightarrow> string option \<Rightarrow>
     (exn + Activity \<times> ActivityContent list) \<times> store" where
  "create st dto aid cids refusal =
     (case validateDates (c_startAt dto) (c_endAt dto) (c_closedAt dto) of
        Inl e \<Rightarrow> (Inl e, st)
      | Inr _ \<Rightarrow>
     (case checkSlugExists st (c_slug dto) of
        Inl e \<Rightarrow> (Inl e, st)
      | Inr _ \<Rightarrow>
     (case validateContentLanguages (c_contents dto) (c_supportedLanguages dto) of
        Inl e \<Rightarrow> (Inl e, st)
      | Inr _ \<Rightarrow>
     (case prismaActivityCreate st dto aid cids refusal of
        Inl e \<Rightarrow> (Inl e, st)
      | Inr (r, st') \<Rightarrow> (Inr r, st')))))"

section \<open>ActivityService: reads\<close>

text \<open>The rows of \<^verbatim>\<open>include: { contents: true }\<close> for one activity.\<close>

definition contentsOf :: "store \<Rightarrow> ident \<Rightarrow> ActivityContent list" where
  "contentsOf st i = filter (\<lambda>c. ac_activityId c = i) (activityContents st)"

definition findOneById :: "store \<Rightarrow> ident \<Rightarrow> exn + Activity \<times> ActivityContent list" where
  "findOneById st i =
     (case findUniqueById st i of
        None \<Rightarrow> Inl (NotFoundException ''Activity not found'')
      | Some activity \<Rightarrow> Inr (activity, contentsOf st i))"

text \<open>The public projection selected by \<^verbatim>\<open>findOneBySlug\<close>.\<close>

record PublicContent =
  pc_lang :: string
  pc_title :: string
  pc_description :: "string option"

record PublicActivity =
  p_slug :: string
  p_startAt :: timestamp
  p_endAt :: timestamp
  p_closedAt :: "timestamp option"
  p_supportedLanguages :: "string list"
  p_contents :: "PublicContent list"

definition selectContent :: "ActivityContent \<Rightarrow> PublicContent" where
  "selectContent c =
     \<lparr>pc_lang = ac_lang c, pc_title = ac_title c, pc_description = ac_description c\<rparr>"

text \<open>
  The selected relation always carries its \<^verbatim>\<open>contents\<close>, so of the two early exits of
  the source only the one for a null activity is a case of the model.
\<close>

definition applySupportedLanguageFilter :: "PublicActivity option \<Rightarrow> PublicActivity option" where
  "applySupportedLanguageFilter activity =
     (case activity of
        None \<Rightarrow> None
      | Some a \<Rightarrow>
          Some (a\<lparr>p_contents :=
                    filter (\<lambda>c. pc_lang c \<in> set (p_supportedLanguages a)) (p_contents a)\<rparr>))"

text \<open>
  What the lookup takes from outside: \<^verbatim>\<open>toLowerCase\<close> on strings with other than
  ASCII characters, and the order in which the database returns the rows of a query that
  asks for none (some arrangement of the rows that match).
\<close>

record runtime =
  rt_lowerOther :: "string \<Rightarrow> string"
  rt_rowOrder :: "ActivityContent list \<Rightarrow> ActivityContent list"

text \<open>
  The \<^verbatim>\<open>where\<close> clause on the contents: \<^verbatim>\<open>lang ? { lang: lang.toLowerCase() } : undefined\<close>.
  A missing and an empty \<^verbatim>\<open>lang\<close> are both falsy and give no condition.
\<close>

definition langWhere :: "runtime \<Rightarrow> string option \<Rightarrow> ActivityContent \<Rightarrow> bool" where
  "langWhere rt lang c =
     (case lang of
        None \<Rightarrow> True
      | Some l \<Rightarrow> if l = [] then True else ac_lang c = toLowerCase (rt_lowerOther rt) l)"

definition findOneBySlug ::
  "runtime \<Rightarrow> store \<Rightarrow> string \<Rightarrow> string option \<Rightarrow> exn + PublicActivity option" where
  "findOneBySlug rt st slug lang =
     (case findUniqueBySlug st slug of
        None \<Rightarrow> Inl (NotFoundException ''Activity not found'')
      | Some a \<Rightarrow>
          Inr (applySupportedLanguageFilter (Some
            \<lparr>p_slug = a_slug a, p_startAt = a_startAt a, p_endAt = a_endAt a,
             p_closedAt = a_closedAt a, p_supportedLanguages = a_supportedLanguages a,
             p_contents = map selectContent
                            (rt_rowOrder rt
                               (filter (langWhere rt lang) (contentsOf st (a_id a))))\<rparr>)))"

section \<open>ActivityService: update\<close>

text \<open>\<^verbatim>\<open>supplied || existing\<close> for a value that is truthy whenever it is present (dates, arrays).\<close>

definition orElse :: "'a option \<Rightarrow> 'a \<Rightarrow> 'a" where
  "orElse supplied existing = (case supplied of Some v \<Rightarrow> v | None \<Rightarrow> existing)"

text \<open>The same for a string, which is falsy when empty as well.\<close>

definition strOrElse :: "string option \<Rightarrow> string \<Rightarrow> string" where
  "strOrElse supplied existing =
     (case supplied of Some v \<Rightarrow> if v = [] then existing else v | None \<Rightarrow> existing)"

text \<open>
  \<^verbatim>\<open>dto.closedAt !== undefined ? dto.closedAt : activity.closedAt\<close>, where the stored
  closure time is null or a valid date.
\<close>

definition mergedClosedAt :: "UpdateActivityDto \<Rightarrow> Activity \<Rightarrow> date optional" where
  "mergedClosedAt dto activity =
     (if u_closedAt dto \<noteq> Undefined
      then u_closedAt dto
      else (case a_closedAt activity of None \<Rightarrow> Null | Some t \<Rightarrow> Present (Date t)))"

text \<open>The date block of \<^verbatim>\<open>update\<close>: it runs only if some date field is supplied.\<close>

definition revalidateDates :: "UpdateActivityDto \<Rightarrow> Activity \<Rightarrow> exn + unit" where
  "revalidateDates dto activity =
     (if u_startAt dto \<noteq> None \<or> u_endAt dto \<noteq> None \<or> u_closedAt dto \<noteq> Undefined
      then validateDates (orElse (u_startAt dto) (Date (a_startAt activity)))
                         (orElse (u_endAt dto) (Date (a_endAt activity)))
                         (mergedClosedAt dto activity)
      else Inr ())"

definition recheckSlug :: "store \<Rightarrow> UpdateActivityDto \<Rightarrow> Activity \<Rightarrow> exn + unit" where
  "recheckSlug st dto activity =
     (case u_slug dto of
        None \<Rightarrow> Inr ()
      | Some slug \<Rightarrow>
          if slug \<noteq> [] \<and> slug \<noteq> a_slug activity then checkSlugExists st slug else Inr ())"

definition revalidateContents :: "UpdateActivityDto \<Rightarrow> Activity \<Rightarrow> exn + unit" where
  "revalidateContents dto activity =
     (case u_contents dto of
        None \<Rightarrow> Inr ()
      | Some contents \<Rightarrow>
          validateContentLanguages contents
            (orElse (u_supportedLanguages dto) (a_supportedLanguages activity)))"

text \<open>
  What makes the writes of the transaction fail, so that it is rolled back: the client
  refuses an invalid date, and the database a string wider than its column.  Only what
  is supplied is written, so only that is looked at.  Refusals that depend on the state
  of the database server are not part of the model of \<^verbatim>\<open>update\<close>.
\<close>

definition refusedWrite :: "UpdateActivityDto \<Rightarrow> exn option" where
  "refusedWrite dto =
     (if u_startAt dto = Some InvalidDate \<or> u_endAt dto = Some InvalidDate \<or>
         u_closedAt dto = Present InvalidDate
      then Some (PrismaError ''invalid date'')
      else if \<not> (fitsActivity (strOrElse (u_name dto) []) (strOrElse (u_slug dto) []) \<and>
                   list_all fitsContent (orElse (u_contents dto) []))
      then Some (PrismaError ''value too long for the column'')
      else None)"

text \<open>
  A date column after the write: the supplied date if there is one, else what was stored.
  (An invalid supplied date does not get here, see \<open>refusedWrite\<close>.)
\<close>

definition writtenDate :: "date option \<Rightarrow> timestamp \<Rightarrow> timestamp" where
  "writtenDate supplied existing = (case supplied of Some (Date t) \<Rightarrow> t | _ \<Rightarrow> existing)"

text \<open>The \<^verbatim>\<open>data\<close> of \<^verbatim>\<open>tx.activity.update\<close>: only the supplied fields are written.\<close>

definition updateData :: "UpdateActivityDto \<Rightarrow> Activity \<Rightarrow> Activity" where
  "updateData dto a =
     a\<lparr>a_name := strOrElse (u_name dto) (a_name a),
       a_slug := strOrElse (u_slug dto) (a_slug a),
       a_startAt := writtenDate (u_startAt dto) (a_startAt a),
       a_endAt := writtenDate (u_endAt dto) (a_endAt a),
       a_closedAt := (case u_closedAt dto of
                        Undefined \<Rightarrow> a_closedAt a
                      | Null \<Rightarrow> None
                      | Present (Date t) \<Rightarrow> Some t
                      | Present InvalidDate \<Rightarrow> a_closedAt a),
       a_supportedLanguages := orElse (u_supportedLanguages dto) (a_supportedLanguages a)\<rparr>"

definition updateActivityRow :: "ident \<Rightarrow> UpdateActivityDto \<Rightarrow> Activity list \<Rightarrow> Activity list" where
  "updateActivityRow i dto rows = map (\<lambda>a. if a_id a = i then updateData dto a else a) rows"

text \<open>
  \<^verbatim>\<open>tx.activityContent.upsert\<close> on the key \<open>(activityId, lang)\<close>.  In the update branch
  an undefined description leaves the stored one as it is.
\<close>

definition sameKey :: "ident \<Rightarrow> string \<Rightarrow> ActivityContent \<Rightarrow> bool" where
  "sameKey activityId lang r = (ac_activityId r = activityId \<and> ac_lang r = lang)"

definition updateContent :: "ActivityContentDto \<Rightarrow> ActivityContent \<Rightarrow> ActivityContent" where
  "updateContent content r =
     r\<lparr>ac_title := dto_title content,
       ac_description := (case dto_description content of
                            None \<Rightarrow> ac_description r
                          | Some d \<Rightarrow> Some d)\<rparr>"

definition upsert ::
  "ident \<Rightarrow> ident \<Rightarrow> ActivityContentDto \<Rightarrow> ActivityContent list \<Rightarrow> ActivityContent list" where
  "upsert activityId cid content rows =
     (if list_ex (sameKey activityId (dto_lang content)) rows
      then map (\<lambda>r. if sameKey activityId (dto_lang content) r then updateContent content r else r)
               rows
      else rows @ [newContent activityId cid content])"

text \<open>
  The upserts of one call, in the order of the supplied list.  The source starts them
  together inside the transaction; their keys differ once the validation has passed.
\<close>

fun upsertAll ::
  "ident \<Rightarrow> (nat \<Rightarrow> ident) \<Rightarrow> nat \<Rightarrow> ActivityContentDto list \<Rightarrow> ActivityContent list \<Rightarrow>
     ActivityContent list" where
  "upsertAll activityId cids k [] rows = rows"
| "upsertAll activityId cids k (content # contents) rows =
     upsertAll activityId cids (Suc k) contents (upsert activityId (cids k) content rows)"

text \<open>
  The body of the transaction when no write fails: the field update, then one upsert per
  supplied content.
\<close>

definition transaction :: "store \<Rightarrow> ident \<Rightarrow> UpdateActivityDto \<Rightarrow> (nat \<Rightarrow> ident) \<Rightarrow> store" where
  "transaction st i dto cids =
     (let st1 = st\<lparr>activities := updateActivityRow i dto (activities st)\<rparr>
      in case u_contents dto of
           None \<Rightarrow> st1
         | Some contents \<Rightarrow>
             st1\<lparr>activityContents := upsertAll i cids 0 contents (activityContents st1)\<rparr>)"

text \<open>
  \<open>cids k\<close> is the identifier \<^verbatim>\<open>withId\<close> gives the \<open>create\<close> part of the \<open>k\<close>-th upsert.
  The value returned on success is that of the final \<^verbatim>\<open>findUnique\<close>, which is nullable.
\<close>

definition update ::
  "store \<Rightarrow> ident \<Rightarrow> UpdateActivityDto \<Rightarrow> (nat \<Rightarrow> ident) \<Rightarrow>
     (exn + (Activity \<times> ActivityContent list) option) \<times> store" where
  "update st i dto cids =
     (case findOneById st i of
        Inl e \<Rightarrow> (Inl e, st)
      | Inr (activity, _) \<Rightarrow>
     (case revalidateDates dto activity of
        Inl e \<Rightarrow> (Inl e, st)
      | Inr _ \<Rightarrow>
     (case recheckSlug st dto activity of
        Inl e \<Rightarrow> (Inl e, st)
      | Inr _ \<Rightarrow>
     (case revalidateContents dto activity of
        Inl e \<Rightarrow> (Inl e, st)
      | Inr _ \<Rightarrow>
     (case refusedWrite dto of
        Some e \<Rightarrow> (Inl e, st)
      | None \<Rightarrow>
          (let st' = transaction st i dto cids
           in (Inr (map_option (\<lambda>a. (a, contentsOf st' i)) (findUniqueById st' i)), st')))))))"

section \<open>The authorization gate\<close>

record AuthUser =
  au_id :: string
  au_permissions :: "string list"
  au_tokenVersion :: int

text \<open>
  \<open>requiredPermissions\<close> is what the reflector finds under the key \<^verbatim>\<open>permissions\<close> on the
  handler or its class (\<open>None\<close> if nothing is declared), \<open>user\<close> is \<^verbatim>\<open>request.user\<close>.
\<close>

definition canActivate :: "string list option \<Rightarrow> AuthUser option \<Rightarrow> bool" where
  "canActivate requiredPermissions user =
     (case requiredPermissions of
        None \<Rightarrow> True
      | Some required \<Rightarrow>
          (case user of
             None \<Rightarrow> False
           | Some u \<Rightarrow> list_all (\<lambda>permission. permission \<in> set (au_permissions u)) required))"

section \<open>AuthService: tables and the outside world\<close>

record Member =
  m_id :: ident
  m_email :: string
  m_displayName :: string
  m_avatarUrl :: "string option"
  m_organization :: "string option"
  m_bio :: "string option"
  m_location :: "string option"

record MemberLink =
  ml_id :: ident
  ml_memberId :: ident
  ml_type :: string
  ml_url :: string

record MemberProvider =
  mp_id :: ident
  mp_memberId :: ident
  mp_provider :: string
  mp_providerUserId :: string

record RoleMember =
  rm_roleId :: ident
  rm_memberId :: ident

record Permission =
  perm_id :: ident
  perm_code :: string

record RolePermission =
  rp_roleId :: ident
  rp_permissionId :: ident

record auth_db =
  members :: "Member list"
  memberLinks :: "MemberLink list"
  memberProviders :: "MemberProvider list"
  roleMembers :: "RoleMember list"
  permissions :: "Permission list"
  rolePermissions :: "RolePermission list"

record GithubProfile =
  gh_id :: int
  gh_login :: string
  gh_name :: "string option"
  gh_email :: "string option"
  gh_avatar_url :: string
  gh_company :: "string option"
  gh_bio :: "string option"
  gh_html_url :: string
  gh_location :: "string option"

record GithubEmail =
  ge_email :: string
  ge_primary :: bool

record GithubSocial =
  gs_provider :: string
  gs_url :: string

record JwtPayload =
  jp_sub :: string
  jp_email :: string
  jp_permissions :: "string list"

record DevLoginUser =
  du_id :: string
  du_email :: string
  du_permissions :: "string list"

record DevLoginResult =
  dl_access_token :: string
  dl_user :: DevLoginUser

text \<open>An HTTP response as \<^verbatim>\<open>fetchGithub\<close> reads it; decoding the body may throw.\<close>

record 'a response =
  r_ok :: bool
  r_statusText :: string
  r_json :: "exn + 'a"

text \<open>
  What a call of the service receives from outside: the outcome of the code exchange
  (access token included), of the three requests to the provider, of signing a payload;
  the identifiers \<^verbatim>\<open>withId\<close> generates, in the order of its calls; the clock; and the
  value of \<^verbatim>\<open>NODE_ENV\<close>.
\<close>

record world =
  w_validateAuthorizationCode :: "string \<Rightarrow> exn + string"
  w_fetchUser :: "string \<Rightarrow> exn + GithubProfile response"
  w_fetchEmails :: "string \<Rightarrow> exn + GithubEmail list response"
  w_fetchSocial :: "string \<Rightarrow> exn + GithubSocial list response"
  w_signAsync :: "JwtPayload \<Rightarrow> exn + string"
  w_withId :: "nat \<Rightarrow> ident"
  w_now :: int
  w_NODE_ENV :: "string option"

section \<open>More JavaScript helpers\<close>

text \<open>\<^verbatim>\<open>String(n)\<close> for an integer.\<close>

definition digitChar :: "nat \<Rightarrow> char" where
  "digitChar d = ''0123456789'' ! d"

function showNat :: "nat \<Rightarrow> string" where
  "showNat n =
     (if n < 10 then [digitChar n] else showNat (n div 10) @ [digitChar (n mod 10)])"
  by pat_completeness auto
termination
  by (relation "measure (\<lambda>n. n)") auto

declare showNat.simps [simp del]

definition showInt :: "int \<Rightarrow> string" where
  "showInt i = (if i < 0 then CHR ''-'' # showNat (nat (- i)) else showNat (nat i))"

text \<open>
  A JavaScript \<^verbatim>\<open>Set\<close> keeps its elements in insertion order: \<open>setAdd\<close> is
  \<^verbatim>\<open>Set.prototype.add\<close>, and \<^verbatim>\<open>Array.from\<close> reads the list off.
\<close>

definition setAdd :: "'a list \<Rightarrow> 'a \<Rightarrow> 'a list" where
  "setAdd s x = (if x \<in> set s then s else s @ [x])"

text \<open>
  \<^verbatim>\<open>Promise.all\<close> of three: the results, or a rejection.  When several reject, the
  model takes the first in array order.
\<close>

definition promiseAll3 :: "exn + 'a \<Rightarrow> exn + 'b \<Rightarrow> exn + 'c \<Rightarrow> exn + 'a \<times> 'b \<times> 'c" where
  "promiseAll3 a b c =
     (case a of
        Inl e \<Rightarrow> Inl e
      | Inr x \<Rightarrow>
          (case b of
             Inl e \<Rightarrow> Inl e
           | Inr y \<Rightarrow> (case c of Inl e \<Rightarrow> Inl e | Inr z \<Rightarrow> Inr (x, y, z))))"

section \<open>AuthService\<close>

definition fetchGithub :: "exn + 'a response \<Rightarrow> exn + 'a" where
  "fetchGithub outcome =
     (case outcome of
        Inl e \<Rightarrow> Inl e
      | Inr response \<Rightarrow>
          if \<not> r_ok response
          then Inl (Error (''GitHub API error: '' @ r_statusText response))
          else r_json response)"

text \<open>
  The rows of \<^verbatim>\<open>rolePermission.findMany\<close> for the roles the member belongs to, and the
  code of the permission each row includes (the foreign key makes it exist).
\<close>

definition rolePermissionsOf :: "auth_db \<Rightarrow> ident \<Rightarrow> RolePermission list" where
  "rolePermissionsOf db memberId =
     filter (\<lambda>rp. list_ex (\<lambda>rm. rm_roleId rm = rp_roleId rp \<and> rm_memberId rm = memberId)
                     (roleMembers db))
            (rolePermissions db)"

definition permissionCode :: "auth_db \<Rightarrow> RolePermission \<Rightarrow> string option" where
  "permissionCode db rp =
     map_option perm_code (find (\<lambda>p. perm_id p = rp_permissionId rp) (permissions db))"

definition getUserPermissions :: "auth_db \<Rightarrow> ident \<Rightarrow> string list" where
  "getUserPermissions db memberId =
     foldl setAdd [] (List.map_filter (permissionCode db) (rolePermissionsOf db memberId))"

definition findMemberByEmail :: "auth_db \<Rightarrow> string \<Rightarrow> Member option" where
  "findMemberByEmail db email = find (\<lambda>m. m_email m = email) (members db)"

text \<open>
  \<^verbatim>\<open>githubUser.email || githubEmails.find((e) => e.primary)?.email\<close>, and then the test
  \<^verbatim>\<open>!email\<close>: the result is \<open>None\<close> when no usable address is left.
\<close>

definition primaryEmail :: "GithubEmail list \<Rightarrow> string option" where
  "primaryEmail githubEmails = map_option ge_email (find ge_primary githubEmails)"

definition effectiveEmail :: "GithubProfile \<Rightarrow> GithubEmail list \<Rightarrow> string option" where
  "effectiveEmail githubUser githubEmails =
     (let email = (case gh_email githubUser of
                     Some e \<Rightarrow> if e \<noteq> [] then Some e else primaryEmail githubEmails
                   | None \<Rightarrow> primaryEmail githubEmails)
      in case email of Some e \<Rightarrow> if e = [] then None else Some e | None \<Rightarrow> None)"

definition githubLinks :: "world \<Rightarrow> ident \<Rightarrow> GithubProfile \<Rightarrow> GithubSocial list \<Rightarrow> MemberLink list" where
  "githubLinks w memberId githubUser socialAccounts =
     \<lparr>ml_id = w_withId w 0, ml_memberId = memberId, ml_type = ''github'',
      ml_url = gh_html_url githubUser\<rparr> #
     map (\<lambda>(k, account).
            \<lparr>ml_id = w_withId w (Suc k), ml_memberId = memberId, ml_type = gs_provider account,
             ml_url = gs_url account\<rparr>)
         (enumerate 0 socialAccounts)"

definition githubProvider :: "world \<Rightarrow> nat \<Rightarrow> ident \<Rightarrow> GithubProfile \<Rightarrow> MemberProvider" where
  "githubProvider w k memberId githubUser =
     \<lparr>mp_id = w_withId w k, mp_memberId = memberId, mp_provider = ''github'',
      mp_providerUserId = showInt (gh_id githubUser)\<rparr>"

text \<open>
  The member for the address: found, and linked to the provider if it was not; or created
  with its links and its provider identity.
\<close>

definition findOrCreateGithubMember ::
  "world \<Rightarrow> auth_db \<Rightarrow> string \<Rightarrow> GithubProfile \<Rightarrow> GithubSocial list \<Rightarrow> Member \<times> auth_db" where
  "findOrCreateGithubMember w db email githubUser socialAccounts =
     (let n = length socialAccounts
      in case findMemberByEmail db email of
           None \<Rightarrow>
             (let user = \<lparr>m_id = w_withId w (n + 2), m_email = email,
                          m_displayName = strOrElse (gh_name githubUser) (gh_login githubUser),
                          m_avatarUrl = Some (gh_avatar_url githubUser),
                          m_organization = gh_company githubUser, m_bio = gh_bio githubUser,
                          m_location = gh_location githubUser\<rparr>
              in (user,
                  db\<lparr>members := members db @ [user],
                     memberLinks := memberLinks db @
                                      githubLinks w (m_id user) githubUser socialAccounts,
                     memberProviders := memberProviders db @
                                          [githubProvider w (n + 1) (m_id user) githubUser]\<rparr>))
         | Some user \<Rightarrow>
             if list_ex (\<lambda>p. mp_memberId p = m_id user \<and> mp_provider p = ''github'')
                        (memberProviders db)
             then (user, db)
             else (user,
                   db\<lparr>memberProviders := memberProviders db @
                                           [githubProvider w (n + 1) (m_id user) githubUser]\<rparr>))"

text \<open>The \<^verbatim>\<open>try\<close> block of \<^verbatim>\<open>loginWithGithub\<close>: the token or what was thrown, and the tables.\<close>

definition tryLoginWithGithub :: "world \<Rightarrow> auth_db \<Rightarrow> string \<Rightarrow> (exn + string) \<times> auth_db" where
  "tryLoginWithGithub w db code =
     (case w_validateAuthorizationCode w code of
        Inl e \<Rightarrow> (Inl e, db)
      | Inr accessToken \<Rightarrow>
     (case promiseAll3 (fetchGithub (w_fetchUser w accessToken))
                       (fetchGithub (w_fetchEmails w accessToken))
                       (fetchGithub (w_fetchSocial w accessToken)) of
        Inl e \<Rightarrow> (Inl e, db)
      | Inr (githubUser, githubEmails, socialAccounts) \<Rightarrow>
     (case effectiveEmail githubUser githubEmails of
        None \<Rightarrow>
          (Inl (UnauthorizedException ''Unable to obtain a valid email address from GitHub''), db)
      | Some email \<Rightarrow>
          (let (user, db') = findOrCreateGithubMember w db email githubUser socialAccounts;
               permissions = getUserPermissions db' (m_id user);
               payload = \<lparr>jp_sub = m_id user, jp_email = m_email user,
                          jp_permissions = permissions\<rparr>
           in case w_signAsync w payload of
                Inl e \<Rightarrow> (Inl e, db')
              | Inr access_token \<Rightarrow> (Inr access_token, db')))))"

text \<open>The \<^verbatim>\<open>catch\<close> block: what is thrown in place of the caught value.\<close>

definition messageOf :: "exn \<Rightarrow> string" where
  "messageOf error =
     (case error of
        BadRequestException m \<Rightarrow> m
      | ConflictException m \<Rightarrow> m
      | NotFoundException m \<Rightarrow> m
      | UnauthorizedException m \<Rightarrow> m
      | PrismaError m \<Rightarrow> m
      | Error m \<Rightarrow> m
      | Thrown \<Rightarrow> ''Unknown error'')"

definition catchLoginError :: "exn \<Rightarrow> exn" where
  "catchLoginError error =
     (case error of
        UnauthorizedException m \<Rightarrow> error
      | _ \<Rightarrow> UnauthorizedException (''GitHub Authentication Failed: '' @ messageOf error))"

definition loginWithGithub :: "world \<Rightarrow> auth_db \<Rightarrow> string \<Rightarrow> (exn + string) \<times> auth_db" where
  "loginWithGithub w db code =
     (case tryLoginWithGithub w db code of
        (Inl error, db') \<Rightarrow> (Inl (catchLoginError error), db')
      | (Inr result, db') \<Rightarrow> (Inr result, db'))"

text \<open>\<^verbatim>\<open>email.split("@")[0]\<close>\<close>

definition localPart :: "string \<Rightarrow> string" where
  "localPart email = takeWhile (\<lambda>c. c \<noteq> CHR ''@'') email"

definition findOrCreateDevMember :: "world \<Rightarrow> auth_db \<Rightarrow> string \<Rightarrow> Member \<times> auth_db" where
  "findOrCreateDevMember w db email =
     (case findMemberByEmail db email of
        Some member \<Rightarrow> (member, db)
      | None \<Rightarrow>
          (let member = \<lparr>m_id = w_withId w 1, m_email = email, m_displayName = localPart email,
                         m_avatarUrl = None, m_organization = None, m_bio = None,
                         m_location = None\<rparr>;
               provider = \<lparr>mp_id = w_withId w 0, mp_memberId = m_id member, mp_provider = ''dev'',
                           mp_providerUserId = ''dev_'' @ showInt (w_now w)\<rparr>
           in (member,
               db\<lparr>members := members db @ [member],
                  memberProviders := memberProviders db @ [provider]\<rparr>)))"

definition devLogin :: "world \<Rightarrow> auth_db \<Rightarrow> string \<Rightarrow> (exn + DevLoginResult) \<times> auth_db" where
  "devLogin w db email =
     (if w_NODE_ENV w = Some ''production''
      then (Inl (Error ''This endpoint is only available in development''), db)
      else (let (member, db') = findOrCreateDevMember w db email;
                permissions = getUserPermissions db' (m_id member);
                payload = \<lparr>jp_sub = m_id member, jp_email = m_email member,
                           jp_permissions = permissions\<rparr>
            in case w_signAsync w payload of
                 Inl e \<Rightarrow> (Inl e, db')
               | Inr access_token \<Rightarrow>
                   (Inr \<lparr>dl_access_token = access_token,
                         dl_user = \<lparr>du_id = m_id member, du_email = m_email member,
                                    du_permissions = permissions\<rparr>\<rparr>,
                    db')))"


section \<open>Auxiliary notions for the upsert\<close>

text \<open>
  What one upsert does to a row when the key is present, and the state of the table in
  which the key of a content is present and all its rows already carry the content.
\<close>

definition touch :: "ident \<Rightarrow> ActivityContentDto \<Rightarrow> ActivityContent \<Rightarrow> ActivityContent" where
  "touch i c r = (if sameKey i (dto_lang c) r then updateContent c r else r)"

definition settled :: "ident \<Rightarrow> ActivityContentDto \<Rightarrow> ActivityContent list \<Rightarrow> bool" where
  "settled i c rows =
     (list_ex (sameKey i (dto_lang c)) rows \<and>
      (\<forall>r \<in> set rows. sameKey i (dto_lang c) r \<longrightarrow> updateContent c r = r))"


section \<open>Sample data\<close>

text \<open>A small store and payloads on which the theorems below are instantiated.\<close>

definition sampleIds :: "nat \<Rightarrow> ident" where
  "sampleIds k = replicate (Suc k) CHR ''c''"

definition sampleActivity :: Activity where
  "sampleActivity =
     \<lparr>a_id = ''a1'', a_name = ''Conf'', a_slug = ''conf-2025'', a_startAt = 10, a_endAt = 20,
      a_closedAt = Some 5, a_supportedLanguages = [''en-us'', ''zh-tw'']\<rparr>"

definition sampleStore :: store where
  "sampleStore =
     \<lparr>activities = [sampleActivity],
      activityContents =
        [\<lparr>ac_id = ''r1'', ac_activityId = ''a1'', ac_lang = ''en-us'', ac_title = ''Hello'',
          ac_description = None\<rparr>,
         \<lparr>ac_id = ''r2'', ac_activityId = ''a1'', ac_lang = ''fr-fr'', ac_title = ''Bonjour'',
          ac_description = Some ''texte''\<rparr>]\<rparr>"

definition sampleContent :: "string \<Rightarrow> ActivityContentDto" where
  "sampleContent l = \<lparr>dto_lang = l, dto_title = ''T'', dto_description = None\<rparr>"

definition sampleCreate :: "string \<Rightarrow> date \<Rightarrow> date \<Rightarrow> date optional \<Rightarrow> CreateActivityDto" where
  "sampleCreate slug s e c =
     \<lparr>c_name = ''New'', c_slug = slug, c_startAt = s, c_endAt = e,
      c_supportedLanguages = [''en-us'', ''zh-tw''], c_closedAt = c,
      c_contents = [sampleContent ''en-us'']\<rparr>"

text \<open>A store with two supported contents and a stale one, and a database that returns rows last first.\<close>

definition sampleStore2 :: store where
  "sampleStore2 =
     \<lparr>activities = [sampleActivity],
      activityContents =
        [\<lparr>ac_id = ''r1'', ac_activityId = ''a1'', ac_lang = ''en-us'', ac_title = ''Hello'',
          ac_description = None\<rparr>,
         \<lparr>ac_id = ''r2'', ac_activityId = ''a1'', ac_lang = ''fr-fr'', ac_title = ''Bonjour'',
          ac_description = Some ''texte''\<rparr>,
         \<lparr>ac_id = ''r3'', ac_activityId = ''a1'', ac_lang = ''zh-tw'', ac_title = ''Ni hao'',
          ac_description = None\<rparr>]\<rparr>"

definition sampleRuntime :: runtime where
  "sampleRuntime = \<lparr>rt_lowerOther = (\<lambda>s. s), rt_rowOrder = rev\<rparr>"

text \<open>An update payload that supplies no field at all.\<close>

definition emptyUpdate :: UpdateActivityDto where
  "emptyUpdate =
     \<lparr>u_name = None, u_slug = None, u_startAt = None, u_endAt = None,
      u_supportedLanguages = None, u_closedAt = Undefined, u_contents = None\<rparr>"

definition sampleUpdate :: UpdateActivityDto where
  "sampleUpdate =
     emptyUpdate\<lparr>u_contents :=
       Some [\<lparr>dto_lang = ''en-us'', dto_title = ''Hi'', dto_description = None\<rparr>,
             \<lparr>dto_lang = ''zh-tw'', dto_title = ''Ni hao'', dto_description = Some ''d''\<rparr>]\<rparr>"

definition otherIds :: "nat \<Rightarrow> ident" where
  "otherIds k = replicate (Suc k) CHR ''z''"


text \<open>A caller, the identity tables, and a provider that can be made to fail.\<close>

definition sampleUser :: "string list \<Rightarrow> AuthUser" where
  "sampleUser ps = \<lparr>au_id = ''m1'', au_permissions = ps, au_tokenVersion = 1\<rparr>"

definition sampleAuthDb :: auth_db where
  "sampleAuthDb =
     \<lparr>members =
        [\<lparr>m_id = ''m1'', m_email = ''ann@example.org'', m_displayName = ''Ann'',
          m_avatarUrl = None, m_organization = None, m_bio = None, m_location = None\<rparr>],
      memberLinks = [],
      memberProviders = [],
      roleMembers =
        [\<lparr>rm_roleId = ''admin'', rm_memberId = ''m1''\<rparr>,
         \<lparr>rm_roleId = ''editor'', rm_memberId = ''m1''\<rparr>],
      permissions =
        [\<lparr>perm_id = ''p1'', perm_code = ''activity:edit''\<rparr>,
         \<lparr>perm_id = ''p2'', perm_code = ''activity:view''\<rparr>],
      rolePermissions =
        [\<lparr>rp_roleId = ''admin'', rp_permissionId = ''p1''\<rparr>,
         \<lparr>rp_roleId = ''admin'', rp_permissionId = ''p2''\<rparr>,
         \<lparr>rp_roleId = ''editor'', rp_permissionId = ''p1''\<rparr>]\<rparr>"

definition sampleProfile :: "string option \<Rightarrow> GithubProfile" where
  "sampleProfile email =
     \<lparr>gh_id = 583231, gh_login = ''octocat'', gh_name = None, gh_email = email,
      gh_avatar_url = ''https://example.org/a.png'', gh_company = None, gh_bio = None,
      gh_html_url = ''https://github.com/octocat'', gh_location = None\<rparr>"

definition sampleExchange :: "string \<Rightarrow> exn + string" where
  "sampleExchange code = (if code = ''good'' then Inr ''token'' else Inl (Error ''fetch failed''))"

definition sampleSign :: "JwtPayload \<Rightarrow> exn + string" where
  "sampleSign payload = Inr (''jwt:'' @ jp_sub payload)"

definition sampleUserResponse :: "bool \<Rightarrow> string option \<Rightarrow> string \<Rightarrow> exn + GithubProfile response" where
  "sampleUserResponse userOk email accessToken =
     Inr \<lparr>r_ok = userOk, r_statusText = ''Forbidden'', r_json = Inr (sampleProfile email)\<rparr>"

definition sampleEmailsResponse :: "string \<Rightarrow> exn + GithubEmail list response" where
  "sampleEmailsResponse accessToken = Inr \<lparr>r_ok = True, r_statusText = ''OK'', r_json = Inr []\<rparr>"

definition sampleSocialResponse :: "string \<Rightarrow> exn + GithubSocial list response" where
  "sampleSocialResponse accessToken = Inr \<lparr>r_ok = True, r_statusText = ''OK'', r_json = Inr []\<rparr>"

definition sampleWorld :: "bool \<Rightarrow> string option \<Rightarrow> string option \<Rightarrow> world" where
  "sampleWorld userOk email env =
     \<lparr>w_validateAuthorizationCode = sampleExchange,
      w_fetchUser = sampleUserResponse userOk email,
      w_fetchEmails = sampleEmailsResponse,
      w_fetchSocial = sampleSocialResponse,
      w_signAsync = sampleSign,
      w_withId = sampleIds,
      w_now = 1700000000000,
      w_NODE_ENV = env\<rparr>"


section \<open>Facts about the JavaScript helpers\<close>

lemma indexOfFrom_nth:
  "i < length xs \<Longrightarrow> (indexOfFrom k xs (xs ! i) = int (k + i)) = (xs ! i \<notin> set (take i xs))"
proof (induction xs arbitrary: k i)
  case Nil
  then show ?case by simp
next
  case (Cons y ys)
  show ?case
  proof (cases i)
    case 0
    then show ?thesis by simp
  next
    case (Suc j)
    with Cons.prems have j: "j < length ys" by simp
    from Cons.IH [OF j, of "Suc k"] Suc show ?thesis by auto
  qed
qed

lemma indexOf_nth:
  "i < length xs \<Longrightarrow> (indexOf xs (xs ! i) \<noteq> int i) = (xs ! i \<in> set (take i xs))"
  using indexOfFrom_nth [of i xs 0] by (simp add: indexOf_def)

lemma set_filterIndexed:
  "set (filterIndexed p xs) = {xs ! i | i. i < length xs \<and> p (xs ! i) i}"
  unfolding filterIndexed_def
  by (force simp: set_zip image_iff)

lemma set_duplicateLangsOf_nth:
  "set (duplicateLangsOf xs) = {xs ! i | i. i < length xs \<and> xs ! i \<in> set (take i xs)}"
  unfolding duplicateLangsOf_def set_filterIndexed
  using indexOf_nth [of _ xs] by blast

lemma ex_less_Suc: "(\<exists>i<Suc n. Q i) = ((\<exists>i<n. Q i) \<or> Q n)"
  using less_Suc_eq by auto

lemma nth_take_snoc:
  "(\<exists>i<length (xs @ [x]). (xs @ [x]) ! i = l \<and> l \<in> set (take i (xs @ [x]))) =
   ((\<exists>i<length xs. xs ! i = l \<and> l \<in> set (take i xs)) \<or> (x = l \<and> l \<in> set xs))"
  unfolding length_append_singleton ex_less_Suc
  by (simp add: nth_append cong: conj_cong)

lemma count_list_ge2:
  "(2 \<le> count_list xs l) = (\<exists>i<length xs. xs ! i = l \<and> l \<in> set (take i xs))"
proof (induction xs rule: rev_induct)
  case Nil
  then show ?case by simp
next
  case (snoc x xs)
  have "(2 \<le> count_list (xs @ [x]) l) = (2 \<le> count_list xs l \<or> (x = l \<and> l \<in> set xs))"
    using count_list_0_iff [of xs l] by auto
  with snoc show ?case unfolding nth_take_snoc by simp
qed

lemma set_duplicateLangsOf:
  "set (duplicateLangsOf xs) = {l. 2 \<le> count_list xs l}"
  unfolding set_duplicateLangsOf_nth count_list_ge2 by blast

lemma distinct_count_list: "distinct xs = (\<forall>l. count_list xs l < 2)"
  by (induction xs) (auto simp: count_list_0_iff less_Suc_eq numeral_2_eq_2)

lemma duplicateLangsOf_Nil: "(duplicateLangsOf xs = []) = distinct xs"
proof -
  have "(duplicateLangsOf xs = []) = (set (duplicateLangsOf xs) = {})" by simp
  also have "\<dots> = (\<forall>l. count_list xs l < 2)"
    unfolding set_duplicateLangsOf by (auto simp: not_le)
  finally show ?thesis by (simp add: distinct_count_list)
qed

section \<open>Validation and create\<close>

lemma dateLe_Date [simp]: "dateLe (Date x) (Date y) = (x \<le> y)"
  by (simp add: dateLe_def)

lemma dateGe_Date [simp]: "dateGe (Date x) (Date y) = (x \<ge> y)"
  by (simp add: dateGe_def)

lemma dateLe_Invalid [simp]: "dateLe InvalidDate b = False" "dateLe a InvalidDate = False"
  by (simp_all add: dateLe_def split: date.splits)

lemma dateGe_Invalid [simp]: "dateGe InvalidDate b = False" "dateGe a InvalidDate = False"
  by (simp_all add: dateGe_def split: date.splits)

lemma validateDates_Inr:
  "(validateDates s e c = Inr ()) = (\<not> dateLe e s \<and> (\<forall>d. c = Present d \<longrightarrow> \<not> dateGe d s))"
  by (cases c) (auto simp: validateDates_def)

lemma validateDates_Inl:
  "validateDates s e c = Inl x \<Longrightarrow> \<exists>m. x = BadRequestException m"
  by (cases c) (auto simp: validateDates_def split: if_splits)

text \<open>On valid dates the check passes exactly when the dates are in order.\<close>

lemma validateDates_valid:
  "(validateDates (Date s) (Date e) c = Inr ()) =
     (s < e \<and> (\<forall>d. c = Present d \<longrightarrow> d = InvalidDate \<or> (\<exists>t. d = Date t \<and> t < s)))"
proof -
  have "(\<not> dateGe d (Date s)) = (d = InvalidDate \<or> (\<exists>t. d = Date t \<and> t < s))" for d
    by (cases d) auto
  then show ?thesis by (auto simp: validateDates_Inr)
qed

lemma checkSlugExists_Inr:
  "(checkSlugExists st s = Inr ()) = (\<forall>a \<in> set (activities st). a_slug a \<noteq> s)"
proof (cases "find (\<lambda>a. a_slug a = s) (activities st)")
  case None
  then have "\<forall>a \<in> set (activities st). a_slug a \<noteq> s"
    by (auto simp: find_None_iff)
  with None show ?thesis
    by (simp add: checkSlugExists_def findUniqueBySlug_def)
next
  case (Some a)
  then have "\<exists>a \<in> set (activities st). a_slug a = s"
    by (auto simp: find_Some_iff)
  with Some show ?thesis
    by (auto simp: checkSlugExists_def findUniqueBySlug_def)
qed

lemma checkSlugExists_Inl:
  "checkSlugExists st s = Inl x \<Longrightarrow> \<exists>m. x = ConflictException m"
  by (auto simp: checkSlugExists_def split: option.splits)

lemma unsupportedLangsOf_Nil:
  "(unsupportedLangsOf ls supp = []) = (\<forall>l \<in> set ls. l \<in> set supp)"
  by (auto simp: unsupportedLangsOf_def filter_empty_conv)

lemma validateContentLanguages_Inr:
  "(validateContentLanguages cs supp = Inr ()) =
     ((\<forall>c \<in> set cs. dto_lang c \<in> set supp) \<and> distinct (map dto_lang cs))"
  using duplicateLangsOf_Nil [of "map dto_lang cs"] unsupportedLangsOf_Nil [of "map dto_lang cs" supp]
  by (auto simp: validateContentLanguages_def Let_def)

lemma validateContentLanguages_Inl:
  "validateContentLanguages cs supp = Inl x \<Longrightarrow> \<exists>m. x = BadRequestException m"
  by (auto simp: validateContentLanguages_def Let_def split: if_splits)

text \<open>
  Claim C4.  Content-language validation accepts a content list exactly when every
  content's language is a member of the supported languages and no language occurs twice.
  If some language is unsupported, the failure is the bad-request error whose message
  lists, in order, the content languages that are not supported, and nothing else.  If
  all are supported but some language is repeated, the failure is the bad-request error
  whose message lists duplicates, and the languages it lists are exactly those that occur
  at least twice.
\<close>

theorem validateContentLanguages_rejects_exactly:
  "((validateContentLanguages contents supportedLanguages = Inr ()) =
      ((\<forall>c \<in> set contents. dto_lang c \<in> set supportedLanguages) \<and>
       distinct (map dto_lang contents)))
   \<and> ((\<exists>c \<in> set contents. dto_lang c \<notin> set supportedLanguages) \<longrightarrow>
        (\<exists>names. validateContentLanguages contents supportedLanguages =
             Inl (BadRequestException
                    (''Contents contain unsupported languages: '' @ join '', '' names))
           \<and> names = filter (\<lambda>l. l \<notin> set supportedLanguages) (map dto_lang contents)
           \<and> set names = set (map dto_lang contents) - set supportedLanguages))
   \<and> ((\<forall>c \<in> set contents. dto_lang c \<in> set supportedLanguages) \<and>
        \<not> distinct (map dto_lang contents) \<longrightarrow>
        (\<exists>names. validateContentLanguages contents supportedLanguages =
             Inl (BadRequestException (''Duplicate languages in contents: '' @ join '', '' names))
           \<and> set names = {l. 2 \<le> count_list (map dto_lang contents) l}))"
proof (intro conjI impI)
  show "(validateContentLanguages contents supportedLanguages = Inr ()) =
      ((\<forall>c \<in> set contents. dto_lang c \<in> set supportedLanguages) \<and>
       distinct (map dto_lang contents))"
    by (rule validateContentLanguages_Inr)
next
  assume "\<exists>c \<in> set contents. dto_lang c \<notin> set supportedLanguages"
  then have "unsupportedLangsOf (map dto_lang contents) supportedLanguages \<noteq> []"
    by (simp add: unsupportedLangsOf_Nil)
  then have "validateContentLanguages contents supportedLanguages =
      Inl (BadRequestException (''Contents contain unsupported languages: '' @
             join '', '' (unsupportedLangsOf (map dto_lang contents) supportedLanguages)))"
    by (simp add: validateContentLanguages_def Let_def)
  moreover have "set (unsupportedLangsOf (map dto_lang contents) supportedLanguages) =
      set (map dto_lang contents) - set supportedLanguages"
    by (auto simp: unsupportedLangsOf_def)
  ultimately show "\<exists>names. validateContentLanguages contents supportedLanguages =
             Inl (BadRequestException
                    (''Contents contain unsupported languages: '' @ join '', '' names))
           \<and> names = filter (\<lambda>l. l \<notin> set supportedLanguages) (map dto_lang contents)
           \<and> set names = set (map dto_lang contents) - set supportedLanguages"
    by (simp add: unsupportedLangsOf_def)
next
  assume a: "(\<forall>c \<in> set contents. dto_lang c \<in> set supportedLanguages) \<and>
        \<not> distinct (map dto_lang contents)"
  then have u: "unsupportedLangsOf (map dto_lang contents) supportedLanguages = []"
    by (simp add: unsupportedLangsOf_Nil)
  from a have d: "duplicateLangsOf (map dto_lang contents) \<noteq> []"
    by (simp add: duplicateLangsOf_Nil)
  from u d have "validateContentLanguages contents supportedLanguages =
      Inl (BadRequestException (''Duplicate languages in contents: '' @
             join '', '' (duplicateLangsOf (map dto_lang contents))))"
    by (simp add: validateContentLanguages_def Let_def)
  then show "\<exists>names. validateContentLanguages contents supportedLanguages =
             Inl (BadRequestException (''Duplicate languages in contents: '' @ join '', '' names))
           \<and> set names = {l. 2 \<le> count_list (map dto_lang contents) l}"
    using set_duplicateLangsOf [of "map dto_lang contents"] by blast
qed

theorem validateContentLanguages_rejects_exactly_witness:
  "validateContentLanguages [sampleContent ''en-us'', sampleContent ''fr-fr''] [''en-us'', ''zh-tw''] =
     Inl (BadRequestException ''Contents contain unsupported languages: fr-fr'')
   \<and> (\<exists>names. validateContentLanguages
                  [sampleContent ''en-us'', sampleContent ''zh-tw'', sampleContent ''en-us'']
                  [''en-us'', ''zh-tw''] =
                Inl (BadRequestException (''Duplicate languages in contents: '' @ join '', '' names))
              \<and> set names = {l. 2 \<le> count_list [''en-us'', ''zh-tw'', ''en-us''] l})
   \<and> validateContentLanguages [sampleContent ''en-us'', sampleContent ''zh-tw''] [''en-us'', ''zh-tw''] = Inr ()"
  using validateContentLanguages_rejects_exactly
          [of "[sampleContent ''en-us'', sampleContent ''fr-fr'']" "[''en-us'', ''zh-tw'']"]
        validateContentLanguages_rejects_exactly
          [of "[sampleContent ''en-us'', sampleContent ''zh-tw'', sampleContent ''en-us'']"
              "[''en-us'', ''zh-tw'']"]
        validateContentLanguages_rejects_exactly
          [of "[sampleContent ''en-us'', sampleContent ''zh-tw'']" "[''en-us'', ''zh-tw'']"]
  by (simp add: sampleContent_def)

lemma newActivity_Some:
  "(\<exists>a. newActivity aid dto = Some a) =
     (c_startAt dto \<noteq> InvalidDate \<and> c_endAt dto \<noteq> InvalidDate \<and>
      c_closedAt dto \<noteq> Present InvalidDate)"
  by (cases "c_closedAt dto")
     (auto simp: newActivity_def orNull_def split: date.splits option.splits)

lemma prismaActivityCreate_Inl:
  "prismaActivityCreate st dto aid cids refusal = Inl e \<Longrightarrow> \<exists>m. e = PrismaError m"
  by (auto simp: prismaActivityCreate_def Let_def split: option.splits if_splits)

lemma prismaActivityCreate_Inr:
  "(\<exists>r. prismaActivityCreate st dto aid cids refusal = Inr r) =
     ((\<exists>a. newActivity aid dto = Some a) \<and> fitsActivity (c_name dto) (c_slug dto) \<and>
      list_all fitsContent (c_contents dto) \<and> refusal = None)"
  by (auto simp: prismaActivityCreate_def Let_def split: option.splits)

lemma create_dates_fail:
  "validateDates (c_startAt dto) (c_endAt dto) (c_closedAt dto) = Inl e \<Longrightarrow>
   create st dto aid cids refusal = (Inl e, st)"
  by (simp add: create_def)

lemma create_slug_fail:
  "validateDates (c_startAt dto) (c_endAt dto) (c_closedAt dto) = Inr () \<Longrightarrow>
   checkSlugExists st (c_slug dto) = Inl e \<Longrightarrow>
   create st dto aid cids refusal = (Inl e, st)"
  by (simp add: create_def)

lemma create_contents_fail:
  "validateDates (c_startAt dto) (c_endAt dto) (c_closedAt dto) = Inr () \<Longrightarrow>
   checkSlugExists st (c_slug dto) = Inr () \<Longrightarrow>
   validateContentLanguages (c_contents dto) (c_supportedLanguages dto) = Inl e \<Longrightarrow>
   create st dto aid cids refusal = (Inl e, st)"
  by (simp add: create_def)

lemma create_insert_fail:
  "validateDates (c_startAt dto) (c_endAt dto) (c_closedAt dto) = Inr () \<Longrightarrow>
   checkSlugExists st (c_slug dto) = Inr () \<Longrightarrow>
   validateContentLanguages (c_contents dto) (c_supportedLanguages dto) = Inr () \<Longrightarrow>
   prismaActivityCreate st dto aid cids refusal = Inl e \<Longrightarrow>
   create st dto aid cids refusal = (Inl e, st)"
  by (simp add: create_def)

lemma create_ok:
  "validateDates (c_startAt dto) (c_endAt dto) (c_closedAt dto) = Inr () \<Longrightarrow>
   checkSlugExists st (c_slug dto) = Inr () \<Longrightarrow>
   validateContentLanguages (c_contents dto) (c_supportedLanguages dto) = Inr () \<Longrightarrow>
   prismaActivityCreate st dto aid cids refusal = Inr (r, st') \<Longrightarrow>
   create st dto aid cids refusal = (Inr r, st')"
  by (simp add: create_def)

lemma sum_unit_cases: "(x :: exn + unit) = Inr () \<or> (\<exists>e. x = Inl e)"
  by (cases x) auto

text \<open>The outcome of create, case by case.\<close>

lemma create_cases:
  obtains (dates) m where "validateDates (c_startAt dto) (c_endAt dto) (c_closedAt dto) =
        Inl (BadRequestException m)"
      "create st dto aid cids refusal = (Inl (BadRequestException m), st)"
  | (slug) m where "validateDates (c_startAt dto) (c_endAt dto) (c_closedAt dto) = Inr ()"
      "create st dto aid cids refusal = (Inl (ConflictException m), st)"
  | (contents) m where "validateDates (c_startAt dto) (c_endAt dto) (c_closedAt dto) = Inr ()"
      "checkSlugExists st (c_slug dto) = Inr ()"
      "create st dto aid cids refusal = (Inl (BadRequestException m), st)"
  | (insert) m where "validateDates (c_startAt dto) (c_endAt dto) (c_closedAt dto) = Inr ()"
      "checkSlugExists st (c_slug dto) = Inr ()"
      "validateContentLanguages (c_contents dto) (c_supportedLanguages dto) = Inr ()"
      "create st dto aid cids refusal = (Inl (PrismaError m), st)"
  | (ok) r st' where "validateDates (c_startAt dto) (c_endAt dto) (c_closedAt dto) = Inr ()"
      "checkSlugExists st (c_slug dto) = Inr ()"
      "validateContentLanguages (c_contents dto) (c_supportedLanguages dto) = Inr ()"
      "prismaActivityCreate st dto aid cids refusal = Inr (r, st')"
      "create st dto aid cids refusal = (Inr r, st')"
proof (cases "validateDates (c_startAt dto) (c_endAt dto) (c_closedAt dto)")
  case (Inl e)
  then show ?thesis using create_dates_fail [OF Inl] validateDates_Inl [OF Inl] dates by blast
next
  case v: (Inr u)
  then have v': "validateDates (c_startAt dto) (c_endAt dto) (c_closedAt dto) = Inr ()" by simp
  show ?thesis
  proof (cases "checkSlugExists st (c_slug dto)")
    case (Inl e)
    then show ?thesis
      using create_slug_fail [OF v' Inl] checkSlugExists_Inl [OF Inl] slug v' by blast
  next
    case s: (Inr u')
    then have s': "checkSlugExists st (c_slug dto) = Inr ()" by simp
    show ?thesis
    proof (cases "validateContentLanguages (c_contents dto) (c_supportedLanguages dto)")
      case (Inl e)
      then show ?thesis
        using create_contents_fail [OF v' s' Inl] validateContentLanguages_Inl [OF Inl]
          contents v' s' by blast
    next
      case c: (Inr u'')
      then have c': "validateContentLanguages (c_contents dto) (c_supportedLanguages dto) = Inr ()"
        by simp
      show ?thesis
      proof (cases "prismaActivityCreate st dto aid cids refusal")
        case (Inl e)
        then show ?thesis
          using create_insert_fail [OF v' s' c' Inl] prismaActivityCreate_Inl [OF Inl]
            insert v' s' c' by blast
      next
        case (Inr p)
        obtain r st' where p: "p = (r, st')" by (cases p)
        with Inr show ?thesis using create_ok [OF v' s' c'] ok v' s' c' by blast
      qed
    qed
  qed
qed

lemma inOrder_iff:
  assumes "c_startAt dto \<noteq> InvalidDate" "c_endAt dto \<noteq> InvalidDate"
          "c_closedAt dto \<noteq> Present InvalidDate"
  shows "(validateDates (c_startAt dto) (c_endAt dto) (c_closedAt dto) = Inr ()) =
         (\<exists>s e. c_startAt dto = Date s \<and> c_endAt dto = Date e \<and> s < e \<and>
                (\<forall>d. c_closedAt dto = Present d \<longrightarrow> (\<exists>t. d = Date t \<and> t < s)))"
proof -
  from assms obtain s e where se: "c_startAt dto = Date s" "c_endAt dto = Date e"
    by (cases "c_startAt dto"; cases "c_endAt dto") auto
  with assms(3) show ?thesis by (auto simp: validateDates_valid)
qed

text \<open>
  Claim C1, amended.  Take a create input whose three dates are valid, whose slug is not
  taken, whose contents pass the language validation, and whose insert the database
  accepts: name and slug of at most 255 characters, each content's language of at most 15
  and title of at most 255, and no other refusal.  Its creation succeeds exactly when
  \<open>endAt\<close> is strictly after \<open>startAt\<close> and \<open>closedAt\<close> is absent (undefined or
  null) or strictly before \<open>startAt\<close>.  For every create input with valid dates, a
  violation of either date condition (equality included) is rejected with a validation
  failure, the store left as it was.  And whenever a creation succeeds, its dates are
  valid and in that order.
\<close>

theorem create_succeeds_iff_dates_in_order:
  "((\<forall>a \<in> set (activities st). a_slug a \<noteq> c_slug dto) \<and>
    (\<forall>c \<in> set (c_contents dto). dto_lang c \<in> set (c_supportedLanguages dto)) \<and>
    distinct (map dto_lang (c_contents dto)) \<and>
    c_startAt dto \<noteq> InvalidDate \<and> c_endAt dto \<noteq> InvalidDate \<and>
    c_closedAt dto \<noteq> Present InvalidDate \<and>
    length (c_name dto) \<le> 255 \<and> length (c_slug dto) \<le> 255 \<and>
    (\<forall>c \<in> set (c_contents dto). length (dto_lang c) \<le> 15 \<and> length (dto_title c) \<le> 255) \<and>
    refusal = None \<longrightarrow>
      (\<exists>r. fst (create st dto aid cids refusal) = Inr r) =
      (\<exists>s e. c_startAt dto = Date s \<and> c_endAt dto = Date e \<and> s < e \<and>
             (\<forall>d. c_closedAt dto = Present d \<longrightarrow> (\<exists>t. d = Date t \<and> t < s))))
   \<and> (c_startAt dto \<noteq> InvalidDate \<and> c_endAt dto \<noteq> InvalidDate \<and>
       c_closedAt dto \<noteq> Present InvalidDate \<and>
       \<not> (\<exists>s e. c_startAt dto = Date s \<and> c_endAt dto = Date e \<and> s < e \<and>
              (\<forall>d. c_closedAt dto = Present d \<longrightarrow> (\<exists>t. d = Date t \<and> t < s))) \<longrightarrow>
        (\<exists>m. create st dto aid cids refusal = (Inl (BadRequestException m), st)))
   \<and> (\<forall>r. fst (create st dto aid cids refusal) = Inr r \<longrightarrow>
        (\<exists>s e. c_startAt dto = Date s \<and> c_endAt dto = Date e \<and> s < e \<and>
               (\<forall>d. c_closedAt dto = Present d \<longrightarrow> (\<exists>t. d = Date t \<and> t < s))))"
proof -
  let ?valid = "c_startAt dto \<noteq> InvalidDate \<and> c_endAt dto \<noteq> InvalidDate \<and>
    c_closedAt dto \<noteq> Present InvalidDate"
  let ?ok = "\<exists>s e. c_startAt dto = Date s \<and> c_endAt dto = Date e \<and> s < e \<and>
             (\<forall>d. c_closedAt dto = Present d \<longrightarrow> (\<exists>t. d = Date t \<and> t < s))"
  let ?v = "validateDates (c_startAt dto) (c_endAt dto) (c_closedAt dto)"
  have v_ok: "(?v = Inr ()) = ?ok" if "?valid"
    using that inOrder_iff [of dto] by blast
  have bad: "\<exists>m. create st dto aid cids refusal = (Inl (BadRequestException m), st)"
    if "?valid" "\<not> ?ok"
  proof -
    from that have "?v \<noteq> Inr ()" using v_ok by blast
    then obtain e where e: "?v = Inl e" using sum_unit_cases [of ?v] by blast
    then obtain m where "e = BadRequestException m" using validateDates_Inl by blast
    with e show ?thesis using create_dates_fail [of dto e st aid cids refusal] by blast
  qed
  have needed: "?ok" if "fst (create st dto aid cids refusal) = Inr r" for r
  proof (cases rule: create_cases [where st=st and dto=dto and aid=aid and cids=cids
                                     and refusal=refusal])
    case (ok r' st')
    then have "\<exists>a. newActivity aid dto = Some a"
      using prismaActivityCreate_Inr [of st dto aid cids refusal] by blast
    then have "?valid" using newActivity_Some [of aid dto] by blast
    with ok(1) show ?thesis using v_ok by blast
  qed (use that in simp_all)
  have good: "\<exists>r. fst (create st dto aid cids refusal) = Inr r"
    if h: "?ok" "?valid" "\<forall>a \<in> set (activities st). a_slug a \<noteq> c_slug dto"
       "\<forall>c \<in> set (c_contents dto). dto_lang c \<in> set (c_supportedLanguages dto)"
       "distinct (map dto_lang (c_contents dto))"
       "length (c_name dto) \<le> 255" "length (c_slug dto) \<le> 255"
       "\<forall>c \<in> set (c_contents dto). length (dto_lang c) \<le> 15 \<and> length (dto_title c) \<le> 255"
       "refusal = None"
  proof -
    from h(1,2) have v: "?v = Inr ()" using v_ok by blast
    from h(3) have s: "checkSlugExists st (c_slug dto) = Inr ()"
      using checkSlugExists_Inr by blast
    from h(4,5)
    have c: "validateContentLanguages (c_contents dto) (c_supportedLanguages dto) = Inr ()"
      using validateContentLanguages_Inr by blast
    from h(2) have "\<exists>a. newActivity aid dto = Some a"
      using newActivity_Some [of aid dto] by blast
    moreover from h(6,7) have "fitsActivity (c_name dto) (c_slug dto)"
      by (simp add: fitsActivity_def)
    moreover from h(8) have "list_all fitsContent (c_contents dto)"
      by (simp add: list_all_iff fitsContent_def)
    ultimately obtain p where "prismaActivityCreate st dto aid cids refusal = Inr p"
      using h(9) prismaActivityCreate_Inr [of st dto aid cids refusal] by blast
    then obtain r st' where "prismaActivityCreate st dto aid cids refusal = Inr (r, st')"
      by (cases p) auto
    from create_ok [OF v s c this] show ?thesis by simp
  qed
  from bad needed good show ?thesis by blast
qed

theorem create_succeeds_iff_dates_in_order_witness:
  "(\<exists>r. fst (create sampleStore (sampleCreate ''conf-2026'' (Date 10) (Date 20) (Present (Date 5)))
              ''a2'' sampleIds None) = Inr r)
   \<and> (\<exists>m. create sampleStore (sampleCreate ''conf-2026'' (Date 10) (Date 10) Undefined) ''a2''
              sampleIds None = (Inl (BadRequestException m), sampleStore))
   \<and> (\<exists>m. create sampleStore (sampleCreate ''conf-2026'' (Date 10) (Date 20) (Present (Date 10)))
              ''a2'' sampleIds None = (Inl (BadRequestException m), sampleStore))"
  using create_succeeds_iff_dates_in_order
          [of sampleStore "sampleCreate ''conf-2026'' (Date 10) (Date 20) (Present (Date 5))"
              None "''a2''" sampleIds]
        create_succeeds_iff_dates_in_order
          [of sampleStore "sampleCreate ''conf-2026'' (Date 10) (Date 10) Undefined"
              None "''a2''" sampleIds]
        create_succeeds_iff_dates_in_order
          [of sampleStore "sampleCreate ''conf-2026'' (Date 10) (Date 20) (Present (Date 10))"
              None "''a2''" sampleIds]
  by (simp add: sampleStore_def sampleCreate_def sampleActivity_def sampleContent_def)

text \<open>
  The claim as first stated, for every create input success exactly when the dates are in
  order and a validation failure otherwise, fails three times.  With dates in order and a
  taken slug creation ends in a conflict.  With dates in order, a free slug and a name of
  256 characters the insert is refused.  With an invalid \<open>closedAt\<close>, which is neither
  absent nor before \<open>startAt\<close>, the date check passes and the failure is the client's,
  not a validation failure.
\<close>

theorem create_dates_in_order_counterexample:
  "create sampleStore (sampleCreate ''conf-2025'' (Date 10) (Date 20) Undefined) ''a2'' sampleIds None =
       (Inl (ConflictException
               (''Activity with slug '' @ [CHR 0x22] @ ''conf-2025'' @ [CHR 0x22] @ '' already exists'')),
        sampleStore)
   \<and> create sampleStore
        ((sampleCreate ''conf-2026'' (Date 10) (Date 20) Undefined)\<lparr>c_name := replicate 256 CHR ''n''\<rparr>)
        ''a2'' sampleIds None =
       (Inl (PrismaError ''value too long for the column''), sampleStore)
   \<and> create sampleStore (sampleCreate ''conf-2026'' (Date 10) (Date 20) (Present InvalidDate))
        ''a2'' sampleIds None =
       (Inl (PrismaError ''invalid date''), sampleStore)"
  by (simp add: create_def validateDates_def checkSlugExists_def findUniqueBySlug_def
        validateContentLanguages_def unsupportedLangsOf_def duplicateLangsOf_def
        filterIndexed_def indexOf_def prismaActivityCreate_def newActivity_def orNull_def
        fitsActivity_def sampleStore_def sampleCreate_def sampleActivity_def sampleContent_def)

text \<open>
  Claim C5, amended.  For every create input whose dates are valid and in order and whose
  slug already belongs to a stored activity, create signals a conflict failure.  Whenever
  create fails, the store afterwards is the store before; the failure is a validation
  failure, a conflict, or the refusal of the insert.
\<close>

theorem create_conflict_and_no_write:
  "((\<exists>s e. c_startAt dto = Date s \<and> c_endAt dto = Date e \<and> s < e \<and>
          (\<forall>d. c_closedAt dto = Present d \<longrightarrow> (\<exists>t. d = Date t \<and> t < s))) \<and>
    (\<exists>a \<in> set (activities st). a_slug a = c_slug dto) \<longrightarrow>
      (\<exists>m. fst (create st dto aid cids refusal) = Inl (ConflictException m)))
   \<and> (\<forall>e. fst (create st dto aid cids refusal) = Inl e \<longrightarrow>
          snd (create st dto aid cids refusal) = st)
   \<and> (\<forall>e. fst (create st dto aid cids refusal) = Inl e \<longrightarrow>
          (\<exists>m. e = BadRequestException m \<or> e = ConflictException m \<or> e = PrismaError m))"
proof -
  let ?v = "validateDates (c_startAt dto) (c_endAt dto) (c_closedAt dto)"
  let ?s = "checkSlugExists st (c_slug dto)"
  have conflict: "\<exists>m. fst (create st dto aid cids refusal) = Inl (ConflictException m)"
    if ok: "\<exists>s e. c_startAt dto = Date s \<and> c_endAt dto = Date e \<and> s < e \<and>
          (\<forall>d. c_closedAt dto = Present d \<longrightarrow> (\<exists>t. d = Date t \<and> t < s))"
       and taken: "\<exists>a \<in> set (activities st). a_slug a = c_slug dto"
  proof -
    from ok have "c_startAt dto \<noteq> InvalidDate \<and> c_endAt dto \<noteq> InvalidDate \<and>
        c_closedAt dto \<noteq> Present InvalidDate" by auto
    with ok have v: "?v = Inr ()" using inOrder_iff [of dto] by blast
    from taken have "?s \<noteq> Inr ()" using checkSlugExists_Inr by blast
    then obtain e where e: "?s = Inl e" using sum_unit_cases [of ?s] by blast
    then obtain m where "e = ConflictException m" using checkSlugExists_Inl by blast
    with v e show ?thesis using create_slug_fail [of dto st e aid cids refusal] by simp
  qed
  have nowrite: "\<forall>e. fst (create st dto aid cids refusal) = Inl e \<longrightarrow>
      snd (create st dto aid cids refusal) = st"
    by (cases rule: create_cases [where st=st and dto=dto and aid=aid and cids=cids
                                    and refusal=refusal]) simp_all
  have kinds: "\<forall>e. fst (create st dto aid cids refusal) = Inl e \<longrightarrow>
      (\<exists>m. e = BadRequestException m \<or> e = ConflictException m \<or> e = PrismaError m)"
    by (cases rule: create_cases [where st=st and dto=dto and aid=aid and cids=cids
                                    and refusal=refusal]) simp_all
  from conflict nowrite kinds show ?thesis by blast
qed

theorem create_conflict_and_no_write_witness:
  "(\<exists>m. fst (create sampleStore (sampleCreate ''conf-2025'' (Date 10) (Date 20) (Present (Date 5)))
              ''a2'' sampleIds None) = Inl (ConflictException m))
   \<and> snd (create sampleStore (sampleCreate ''conf-2025'' (Date 10) (Date 20) (Present (Date 5)))
            ''a2'' sampleIds None) = sampleStore"
  using create_conflict_and_no_write
          [of "sampleCreate ''conf-2025'' (Date 10) (Date 20) (Present (Date 5))" sampleStore
              "''a2''" sampleIds None]
  by (auto simp add: sampleStore_def sampleCreate_def sampleActivity_def)

text \<open>
  The claim as first stated, a conflict for every input whose slug is taken, fails: the
  dates are checked first, so a taken slug with \<open>endAt\<close> before \<open>startAt\<close> ends in a
  validation failure.
\<close>

theorem create_taken_slug_bad_dates_counterexample:
  "findUniqueBySlug sampleStore (c_slug (sampleCreate ''conf-2025'' (Date 10) (Date 5) Undefined)) =
     Some sampleActivity
   \<and> create sampleStore (sampleCreate ''conf-2025'' (Date 10) (Date 5) Undefined) ''a2'' sampleIds None =
       (Inl (BadRequestException ''End date must be after start date''), sampleStore)"
  by (simp add: create_def validateDates_def findUniqueBySlug_def
        sampleStore_def sampleCreate_def sampleActivity_def)

section \<open>The public lookup by slug\<close>

lemma findUniqueBySlug_None:
  "(findUniqueBySlug st slug = None) = (\<forall>a \<in> set (activities st). a_slug a \<noteq> slug)"
  by (auto simp: findUniqueBySlug_def find_None_iff)

text \<open>Filtering and projecting commute with any rearrangement of the rows.\<close>

lemma filter_selectContent:
  "filter (\<lambda>c. pc_lang c \<in> S) (map selectContent rows) =
   map selectContent (filter (\<lambda>c. ac_lang c \<in> S) rows)"
  by (induction rows) (simp_all add: selectContent_def)

lemma mset_filter_order:
  assumes "mset ys = mset xs"
  shows "mset (filter P (map f ys)) = mset (filter P (map f xs))"
proof -
  have "mset (filter P (map f ys)) = filter_mset P (image_mset f (mset ys))" by simp
  also have "\<dots> = filter_mset P (image_mset f (mset xs))" by (simp only: assms)
  also have "\<dots> = mset (filter P (map f xs))" by simp
  finally show ?thesis .
qed

lemma findOneBySlug_found:
  assumes order: "\<forall>rows. mset (rt_rowOrder rt rows) = mset rows"
      and found: "findUniqueBySlug st slug = Some a"
  shows "\<exists>p. findOneBySlug rt st slug lang = Inr (Some p) \<and>
       p_slug p = a_slug a \<and> p_supportedLanguages p = a_supportedLanguages a \<and>
       mset (p_contents p) =
         mset (map selectContent
           (filter (\<lambda>c. ac_activityId c = a_id a \<and> langWhere rt lang c \<and>
                        ac_lang c \<in> set (a_supportedLanguages a))
                   (activityContents st)))"
proof -
  let ?rows = "filter (langWhere rt lang) (contentsOf st (a_id a))"
  let ?S = "set (a_supportedLanguages a)"
  let ?p = "\<lparr>p_slug = a_slug a, p_startAt = a_startAt a, p_endAt = a_endAt a,
             p_closedAt = a_closedAt a, p_supportedLanguages = a_supportedLanguages a,
             p_contents = filter (\<lambda>c. pc_lang c \<in> ?S)
                            (map selectContent (rt_rowOrder rt ?rows))\<rparr>"
  from found have r: "findOneBySlug rt st slug lang = Inr (Some ?p)"
    by (simp add: findOneBySlug_def applySupportedLanguageFilter_def)
  from order have "mset (rt_rowOrder rt ?rows) = mset ?rows" by blast
  from mset_filter_order [OF this, of "\<lambda>c. pc_lang c \<in> ?S" selectContent]
  have "mset (p_contents ?p) = mset (filter (\<lambda>c. pc_lang c \<in> ?S) (map selectContent ?rows))"
    by simp
  also have "\<dots> = mset (map selectContent
           (filter (\<lambda>c. ac_activityId c = a_id a \<and> langWhere rt lang c \<and> ac_lang c \<in> ?S)
                   (activityContents st)))"
  proof -
    have "filter (\<lambda>c. ac_lang c \<in> ?S) ?rows =
          filter (\<lambda>c. ac_activityId c = a_id a \<and> langWhere rt lang c \<and> ac_lang c \<in> ?S)
                 (activityContents st)"
      unfolding contentsOf_def filter_filter by (rule filter_cong) auto
    then show ?thesis by (simp only: filter_selectContent)
  qed
  finally show ?thesis using r by simp
qed

lemma toLowerCase_ascii:
  "list_all isAscii l \<Longrightarrow> toLowerCase f l = map lowerChar l"
  by (simp add: toLowerCase_def)

text \<open>
  Claim C2.  Whatever the order in which the database returns rows: if no stored activity
  has the slug, \<open>findOneBySlug\<close> signals the not-found failure.  Otherwise, for the
  activity the slug denotes: without a language it returns exactly the activity's contents
  whose language is a member of the activity's current supported languages, so a content
  whose language has been removed from them is dropped; with a requested (non-empty)
  language it returns, among those, exactly the contents whose language equals the
  requested one in lower case.  An empty language string counts as no language, and two
  ASCII requests that differ in the case of letters only get the same answer.
\<close>

theorem findOneBySlug_language_filter:
  assumes order: "\<forall>rows. mset (rt_rowOrder rt rows) = mset rows"
  shows
  "((\<forall>a \<in> set (activities st). a_slug a \<noteq> slug) \<longrightarrow>
       findOneBySlug rt st slug lang = Inl (NotFoundException ''Activity not found''))
   \<and> (\<forall>a. findUniqueBySlug st slug = Some a \<longrightarrow>
         (\<exists>p. findOneBySlug rt st slug None = Inr (Some p) \<and>
              p_supportedLanguages p = a_supportedLanguages a \<and>
              mset (p_contents p) =
                mset (map selectContent
                  (filter (\<lambda>c. ac_activityId c = a_id a \<and>
                               ac_lang c \<in> set (a_supportedLanguages a))
                          (activityContents st))))
       \<and> (l \<noteq> [] \<longrightarrow>
           (\<exists>p. findOneBySlug rt st slug (Some l) = Inr (Some p) \<and>
                mset (p_contents p) =
                  mset (map selectContent
                    (filter (\<lambda>c. ac_activityId c = a_id a \<and>
                                 ac_lang c = toLowerCase (rt_lowerOther rt) l \<and>
                                 ac_lang c \<in> set (a_supportedLanguages a))
                            (activityContents st))) \<and>
                (\<forall>c \<in> set (p_contents p). pc_lang c = toLowerCase (rt_lowerOther rt) l))))
   \<and> findOneBySlug rt st slug (Some []) = findOneBySlug rt st slug None
   \<and> (l \<noteq> [] \<and> l' \<noteq> [] \<and> list_all isAscii l \<and> list_all isAscii l' \<and>
       map lowerChar l = map lowerChar l' \<longrightarrow>
        findOneBySlug rt st slug (Some l) = findOneBySlug rt st slug (Some l'))"
proof (intro conjI allI impI)
  assume "\<forall>a \<in> set (activities st). a_slug a \<noteq> slug"
  then have "findUniqueBySlug st slug = None" by (simp add: findUniqueBySlug_None)
  then show "findOneBySlug rt st slug lang = Inl (NotFoundException ''Activity not found'')"
    by (simp add: findOneBySlug_def)
next
  fix a assume "findUniqueBySlug st slug = Some a"
  from findOneBySlug_found [OF order this, of None]
  show "\<exists>p. findOneBySlug rt st slug None = Inr (Some p) \<and>
              p_supportedLanguages p = a_supportedLanguages a \<and>
              mset (p_contents p) =
                mset (map selectContent
                  (filter (\<lambda>c. ac_activityId c = a_id a \<and>
                               ac_lang c \<in> set (a_supportedLanguages a))
                          (activityContents st)))"
    by (auto simp: langWhere_def)
next
  fix a assume a: "findUniqueBySlug st slug = Some a" and l: "l \<noteq> []"
  from findOneBySlug_found [OF order a, of "Some l"] l
  obtain p where p: "findOneBySlug rt st slug (Some l) = Inr (Some p)"
    and c: "mset (p_contents p) =
                  mset (map selectContent
                    (filter (\<lambda>c. ac_activityId c = a_id a \<and>
                                 ac_lang c = toLowerCase (rt_lowerOther rt) l \<and>
                                 ac_lang c \<in> set (a_supportedLanguages a))
                            (activityContents st)))"
    by (auto simp: langWhere_def)
  from c have "set (p_contents p) =
                  set (map selectContent
                    (filter (\<lambda>c. ac_activityId c = a_id a \<and>
                                 ac_lang c = toLowerCase (rt_lowerOther rt) l \<and>
                                 ac_lang c \<in> set (a_supportedLanguages a))
                            (activityContents st)))"
    by (rule mset_eq_setD)
  then have "\<forall>c \<in> set (p_contents p). pc_lang c = toLowerCase (rt_lowerOther rt) l"
    by (auto simp: selectContent_def)
  with p c show "\<exists>p. findOneBySlug rt st slug (Some l) = Inr (Some p) \<and>
                mset (p_contents p) =
                  mset (map selectContent
                    (filter (\<lambda>c. ac_activityId c = a_id a \<and>
                                 ac_lang c = toLowerCase (rt_lowerOther rt) l \<and>
                                 ac_lang c \<in> set (a_supportedLanguages a))
                            (activityContents st))) \<and>
                (\<forall>c \<in> set (p_contents p). pc_lang c = toLowerCase (rt_lowerOther rt) l)"
    by blast
next
  have "langWhere rt (Some []) = langWhere rt None"
    by (simp add: fun_eq_iff langWhere_def)
  then show "findOneBySlug rt st slug (Some []) = findOneBySlug rt st slug None"
    by (simp add: findOneBySlug_def split: option.splits)
next
  assume h: "l \<noteq> [] \<and> l' \<noteq> [] \<and> list_all isAscii l \<and> list_all isAscii l' \<and>
       map lowerChar l = map lowerChar l'"
  then have "toLowerCase (rt_lowerOther rt) l = toLowerCase (rt_lowerOther rt) l'"
    by (simp add: toLowerCase_ascii)
  with h have "langWhere rt (Some l) = langWhere rt (Some l')"
    by (simp add: fun_eq_iff langWhere_def)
  then show "findOneBySlug rt st slug (Some l) = findOneBySlug rt st slug (Some l')"
    by (simp add: findOneBySlug_def split: option.splits)
qed

lemma toLowerCase_letters:
  "toLowerCase (\<lambda>s. s) ''ABCDEFGHIJKLMNOPQRSTUVWXYZ'' = ''abcdefghijklmnopqrstuvwxyz''"
  by code_simp

lemma toLowerCase_sample: "toLowerCase (\<lambda>s. s) ''ZH-tw'' = ''zh-tw''"
  by code_simp

lemma isAscii_sample: "list_all isAscii ''ZH-tw''" "list_all isAscii ''zh-TW''"
  by code_simp+

lemma lowerChar_sample: "map lowerChar ''ZH-tw'' = ''zh-tw''" "map lowerChar ''zh-TW'' = ''zh-tw''"
  by code_simp+

lemma sample_lookup_all:
  "findOneBySlug sampleRuntime sampleStore2 ''conf-2025'' None =
     Inr (Some \<lparr>p_slug = ''conf-2025'', p_startAt = 10, p_endAt = 20, p_closedAt = Some 5,
                p_supportedLanguages = [''en-us'', ''zh-tw''],
                p_contents =
                  [\<lparr>pc_lang = ''zh-tw'', pc_title = ''Ni hao'', pc_description = None\<rparr>,
                   \<lparr>pc_lang = ''en-us'', pc_title = ''Hello'', pc_description = None\<rparr>]\<rparr>)"
  by (simp add: findOneBySlug_def findUniqueBySlug_def applySupportedLanguageFilter_def
        contentsOf_def langWhere_def selectContent_def sampleRuntime_def sampleStore2_def
        sampleActivity_def)

lemma sample_lookup_one:
  "findOneBySlug sampleRuntime sampleStore2 ''conf-2025'' (Some ''ZH-tw'') =
     Inr (Some \<lparr>p_slug = ''conf-2025'', p_startAt = 10, p_endAt = 20, p_closedAt = Some 5,
                p_supportedLanguages = [''en-us'', ''zh-tw''],
                p_contents =
                  [\<lparr>pc_lang = ''zh-tw'', pc_title = ''Ni hao'', pc_description = None\<rparr>]\<rparr>)"
  by (simp add: findOneBySlug_def findUniqueBySlug_def applySupportedLanguageFilter_def
        contentsOf_def langWhere_def selectContent_def sampleRuntime_def sampleStore2_def
        sampleActivity_def toLowerCase_sample)

theorem findOneBySlug_language_filter_witness:
  "findOneBySlug sampleRuntime sampleStore2 ''conf'' (Some ''ZH-tw'') =
     Inl (NotFoundException ''Activity not found'')
   \<and> (\<exists>p. findOneBySlug sampleRuntime sampleStore2 ''conf-2025'' None = Inr (Some p) \<and>
            map pc_lang (p_contents p) = [''zh-tw'', ''en-us''])
   \<and> (\<exists>p. findOneBySlug sampleRuntime sampleStore2 ''conf-2025'' (Some ''ZH-tw'') = Inr (Some p) \<and>
            map pc_lang (p_contents p) = [''zh-tw''])
   \<and> findOneBySlug sampleRuntime sampleStore2 ''conf-2025'' (Some ''zh-TW'') =
       findOneBySlug sampleRuntime sampleStore2 ''conf-2025'' (Some ''ZH-tw'')
   \<and> toLowerCase (rt_lowerOther sampleRuntime) ''ABCDEFGHIJKLMNOPQRSTUVWXYZ'' =
       ''abcdefghijklmnopqrstuvwxyz''"
proof -
  have order: "\<forall>rows. mset (rt_rowOrder sampleRuntime rows) = mset rows"
    by (simp add: sampleRuntime_def)
  have nf: "\<forall>a \<in> set (activities sampleStore2). a_slug a \<noteq> ''conf''"
    by (simp add: sampleStore2_def sampleActivity_def)
  from findOneBySlug_language_filter
         [OF order, of sampleStore2 "''conf''" "Some ''ZH-tw''" "''zh-TW''" "''ZH-tw''"] nf
  have 1: "findOneBySlug sampleRuntime sampleStore2 ''conf'' (Some ''ZH-tw'') =
     Inl (NotFoundException ''Activity not found'')" by blast
  from findOneBySlug_language_filter
         [OF order, of sampleStore2 "''conf-2025''" None "''zh-TW''" "''ZH-tw''"]
       isAscii_sample lowerChar_sample
  have 4: "findOneBySlug sampleRuntime sampleStore2 ''conf-2025'' (Some ''zh-TW'') =
       findOneBySlug sampleRuntime sampleStore2 ''conf-2025'' (Some ''ZH-tw'')"
    by simp
  have 5: "toLowerCase (rt_lowerOther sampleRuntime) ''ABCDEFGHIJKLMNOPQRSTUVWXYZ'' =
       ''abcdefghijklmnopqrstuvwxyz''"
    using toLowerCase_letters by (simp add: sampleRuntime_def)
  from 1 4 5 show ?thesis by (simp add: sample_lookup_all sample_lookup_one)
qed

section \<open>Update: the outcome and the closure time\<close>

lemma find_map_same_id:
  "find (\<lambda>a. a_id a = i) (map (\<lambda>a. if a_id a = i then f a else a) rows) =
   map_option f (find (\<lambda>a. a_id a = i) rows)" if "\<And>a. a_id (f a) = a_id a"
  using that by (induction rows) auto

lemma a_id_updateData: "a_id (updateData dto a) = a_id a"
  by (simp add: updateData_def)

lemma findUniqueById_transaction:
  "findUniqueById (transaction st i dto cids) i = map_option (updateData dto) (findUniqueById st i)"
  by (simp add: findUniqueById_def transaction_def Let_def updateActivityRow_def
        find_map_same_id a_id_updateData split: option.splits)

lemma update_not_found:
  "findUniqueById st i = None \<Longrightarrow>
   update st i dto cids = (Inl (NotFoundException ''Activity not found''), st)"
  by (simp add: update_def findOneById_def)

lemma update_dates_fail:
  "findUniqueById st i = Some a \<Longrightarrow> revalidateDates dto a = Inl e \<Longrightarrow>
   update st i dto cids = (Inl e, st)"
  by (simp add: update_def findOneById_def)

lemma update_slug_fail:
  "findUniqueById st i = Some a \<Longrightarrow> revalidateDates dto a = Inr () \<Longrightarrow>
   recheckSlug st dto a = Inl e \<Longrightarrow>
   update st i dto cids = (Inl e, st)"
  by (simp add: update_def findOneById_def)

lemma update_contents_fail:
  "findUniqueById st i = Some a \<Longrightarrow> revalidateDates dto a = Inr () \<Longrightarrow>
   recheckSlug st dto a = Inr () \<Longrightarrow> revalidateContents dto a = Inl e \<Longrightarrow>
   update st i dto cids = (Inl e, st)"
  by (simp add: update_def findOneById_def)

lemma update_refused:
  "findUniqueById st i = Some a \<Longrightarrow> revalidateDates dto a = Inr () \<Longrightarrow>
   recheckSlug st dto a = Inr () \<Longrightarrow> revalidateContents dto a = Inr () \<Longrightarrow>
   refusedWrite dto = Some e \<Longrightarrow>
   update st i dto cids = (Inl e, st)"
  by (simp add: update_def findOneById_def)

lemma update_ok:
  "findUniqueById st i = Some a \<Longrightarrow> revalidateDates dto a = Inr () \<Longrightarrow>
   recheckSlug st dto a = Inr () \<Longrightarrow> revalidateContents dto a = Inr () \<Longrightarrow>
   refusedWrite dto = None \<Longrightarrow>
   update st i dto cids =
     (Inr (Some (updateData dto a, contentsOf (transaction st i dto cids) i)),
      transaction st i dto cids)"
  by (simp add: update_def findOneById_def Let_def findUniqueById_transaction)

text \<open>The outcome of an update, case by case.\<close>

lemma update_cases:
  obtains (not_found) "findUniqueById st i = None"
      "update st i dto cids = (Inl (NotFoundException ''Activity not found''), st)"
  | (failed) a e where "findUniqueById st i = Some a"
      "update st i dto cids = (Inl e, st)"
      "revalidateDates dto a = Inl e \<or> recheckSlug st dto a = Inl e \<or>
       revalidateContents dto a = Inl e \<or> refusedWrite dto = Some e"
  | (ok) a where "findUniqueById st i = Some a" "revalidateDates dto a = Inr ()"
      "recheckSlug st dto a = Inr ()" "revalidateContents dto a = Inr ()"
      "refusedWrite dto = None"
      "update st i dto cids =
         (Inr (Some (updateData dto a, contentsOf (transaction st i dto cids) i)),
          transaction st i dto cids)"
proof (cases "findUniqueById st i")
  case None
  then show ?thesis using update_not_found not_found by blast
next
  case (Some a)
  show ?thesis
  proof (cases "revalidateDates dto a")
    case (Inl e)
    then show ?thesis using update_dates_fail [OF Some Inl] failed Some by blast
  next
    case d: (Inr u)
    show ?thesis
    proof (cases "recheckSlug st dto a")
      case (Inl e)
      then show ?thesis using update_slug_fail [OF Some _ Inl] d failed Some by auto
    next
      case s: (Inr u')
      show ?thesis
      proof (cases "revalidateContents dto a")
        case (Inl e)
        then show ?thesis using update_contents_fail [OF Some _ _ Inl] d s failed Some by auto
      next
        case c: (Inr u'')
        show ?thesis
        proof (cases "refusedWrite dto")
          case None
          then show ?thesis using update_ok [OF Some] d s c ok Some by auto
        next
          case r: (Some e)
          then show ?thesis using update_refused [OF Some _ _ _ r] d s c failed Some by auto
        qed
      qed
    qed
  qed
qed


lemma update_success_closedAt:
  assumes a: "findUniqueById st i = Some a"
      and u: "update st i dto cids = (Inr r, st')"
  shows "map_option a_closedAt (findUniqueById st' i) = Some (a_closedAt (updateData dto a))"
proof (cases rule: update_cases [where st=st and i=i and dto=dto and cids=cids])
  case not_found
  with a show ?thesis by simp
next
  case (failed b e)
  with u show ?thesis by simp
next
  case (ok b)
  with a u have "st' = transaction st i dto cids" "b = a" by auto
  with a show ?thesis
    by (simp add: findUniqueById_transaction)
qed

lemma revalidateDates_only_closedAt_Null:
  "a_startAt a < a_endAt a \<Longrightarrow> revalidateDates (emptyUpdate\<lparr>u_closedAt := Null\<rparr>) a = Inr ()"
  by (simp add: revalidateDates_def emptyUpdate_def orElse_def mergedClosedAt_def validateDates_def)

lemma refusedWrite_emptyUpdate:
  "refusedWrite emptyUpdate = None" "refusedWrite (emptyUpdate\<lparr>u_closedAt := Null\<rparr>) = None"
  by (simp_all add: refusedWrite_def emptyUpdate_def strOrElse_def orElse_def fitsActivity_def)

lemma update_only_closedAt_Null:
  assumes a: "findUniqueById st i = Some a" and d: "a_startAt a < a_endAt a"
  shows "update st i (emptyUpdate\<lparr>u_closedAt := Null\<rparr>) cids =
           (Inr (Some (updateData (emptyUpdate\<lparr>u_closedAt := Null\<rparr>) a,
                       contentsOf (transaction st i (emptyUpdate\<lparr>u_closedAt := Null\<rparr>) cids) i)),
            transaction st i (emptyUpdate\<lparr>u_closedAt := Null\<rparr>) cids)"
proof (rule update_ok [OF a])
  show "revalidateDates (emptyUpdate\<lparr>u_closedAt := Null\<rparr>) a = Inr ()"
    by (rule revalidateDates_only_closedAt_Null [OF d])
  show "recheckSlug st (emptyUpdate\<lparr>u_closedAt := Null\<rparr>) a = Inr ()"
    by (simp add: recheckSlug_def emptyUpdate_def)
  show "revalidateContents (emptyUpdate\<lparr>u_closedAt := Null\<rparr>) a = Inr ()"
    by (simp add: revalidateContents_def emptyUpdate_def)
  show "refusedWrite (emptyUpdate\<lparr>u_closedAt := Null\<rparr>) = None"
    by (rule refusedWrite_emptyUpdate)
qed

lemma update_emptyUpdate:
  assumes a: "findUniqueById st i = Some a"
  shows "update st i emptyUpdate cids =
           (Inr (Some (updateData emptyUpdate a, contentsOf (transaction st i emptyUpdate cids) i)),
            transaction st i emptyUpdate cids)"
proof (rule update_ok [OF a])
  show "revalidateDates emptyUpdate a = Inr ()"
    by (simp add: revalidateDates_def emptyUpdate_def)
  show "recheckSlug st emptyUpdate a = Inr ()"
    by (simp add: recheckSlug_def emptyUpdate_def)
  show "revalidateContents emptyUpdate a = Inr ()"
    by (simp add: revalidateContents_def emptyUpdate_def)
  show "refusedWrite emptyUpdate = None"
    by (rule refusedWrite_emptyUpdate)
qed

lemma revalidateDates_explicit:
  "(revalidateDates dto a = Inr ()) =
     ((u_startAt dto = None \<and> u_endAt dto = None \<and> u_closedAt dto = Undefined) \<or>
      (\<not> dateLe (case u_endAt dto of Some d \<Rightarrow> d | None \<Rightarrow> Date (a_endAt a))
                 (case u_startAt dto of Some d \<Rightarrow> d | None \<Rightarrow> Date (a_startAt a)) \<and>
       (case u_closedAt dto of
          Undefined \<Rightarrow>
            (case a_closedAt a of
               None \<Rightarrow> True
             | Some t \<Rightarrow>
                 \<not> dateGe (Date t) (case u_startAt dto of Some d \<Rightarrow> d | None \<Rightarrow> Date (a_startAt a)))
        | Null \<Rightarrow> True
        | Present d \<Rightarrow>
            \<not> dateGe d (case u_startAt dto of Some d \<Rightarrow> d | None \<Rightarrow> Date (a_startAt a)))))"
  by (cases "u_closedAt dto"; cases "a_closedAt a")
     (auto simp: revalidateDates_def mergedClosedAt_def validateDates_Inr orElse_def
        split: option.splits)

lemma revalidateDates_stored_closedAt:
  assumes "u_closedAt dto = Undefined" "u_startAt dto = Some (Date s)" "a_closedAt a = Some t"
          "s \<le> t"
          "\<not> dateLe (case u_endAt dto of Some d \<Rightarrow> d | None \<Rightarrow> Date (a_endAt a)) (Date s)"
  shows "revalidateDates dto a =
           Inl (BadRequestException ''Closed date must be before start date'')"
  using assms
  by (simp add: revalidateDates_def mergedClosedAt_def validateDates_def orElse_def
        split: option.splits)

text \<open>
  Claim C3.  For an existing activity: an update that supplies \<open>closedAt\<close> as null and
  succeeds leaves the stored closure time null; one that omits \<open>closedAt\<close> and succeeds
  leaves the stored closure time as it was.  A payload of nothing but a null
  \<open>closedAt\<close> does succeed when the stored dates are in order, the empty payload always
  does, and when a closure time was stored the two resulting stores differ.

  The date re-validation runs when some date field is supplied, on the supplied start and
  end or else the stored ones, and on this closure time: the supplied one whenever it is
  not undefined (null included), the stored one otherwise.  A failure of it is the failure
  of the update.  So an update that moves the start to or before the stored closure time
  and omits \<open>closedAt\<close> is rejected because of the stored closure time, while the same
  payload with a null \<open>closedAt\<close> passes the re-validation.
\<close>

theorem update_closedAt_null_clears_omitted_keeps:
  assumes a: "findUniqueById st i = Some a"
  shows
   "(\<forall>r st'. update st i (dto\<lparr>u_closedAt := Null\<rparr>) cids = (Inr r, st') \<longrightarrow>
        map_option a_closedAt (findUniqueById st' i) = Some None)
    \<and> (\<forall>r st'. update st i (dto\<lparr>u_closedAt := Undefined\<rparr>) cids = (Inr r, st') \<longrightarrow>
        map_option a_closedAt (findUniqueById st' i) = Some (a_closedAt a))
    \<and> (a_startAt a < a_endAt a \<longrightarrow>
        (\<exists>r st'. update st i (emptyUpdate\<lparr>u_closedAt := Null\<rparr>) cids = (Inr r, st') \<and>
           map_option a_closedAt (findUniqueById st' i) = Some None))
    \<and> (\<exists>r st'. update st i emptyUpdate cids = (Inr r, st') \<and>
           map_option a_closedAt (findUniqueById st' i) = Some (a_closedAt a))
    \<and> (a_startAt a < a_endAt a \<and> a_closedAt a \<noteq> None \<longrightarrow>
        snd (update st i (emptyUpdate\<lparr>u_closedAt := Null\<rparr>) cids) \<noteq>
        snd (update st i emptyUpdate cids))
    \<and> (revalidateDates dto a = Inr ()) =
        ((u_startAt dto = None \<and> u_endAt dto = None \<and> u_closedAt dto = Undefined) \<or>
         (\<not> dateLe (case u_endAt dto of Some d \<Rightarrow> d | None \<Rightarrow> Date (a_endAt a))
                    (case u_startAt dto of Some d \<Rightarrow> d | None \<Rightarrow> Date (a_startAt a)) \<and>
          (case u_closedAt dto of
             Undefined \<Rightarrow>
               (case a_closedAt a of
                  None \<Rightarrow> True
                | Some t \<Rightarrow>
                    \<not> dateGe (Date t)
                        (case u_startAt dto of Some d \<Rightarrow> d | None \<Rightarrow> Date (a_startAt a)))
           | Null \<Rightarrow> True
           | Present d \<Rightarrow>
               \<not> dateGe d (case u_startAt dto of Some d \<Rightarrow> d | None \<Rightarrow> Date (a_startAt a)))))
    \<and> (\<forall>e. revalidateDates dto a = Inl e \<longrightarrow> update st i dto cids = (Inl e, st))
    \<and> (u_closedAt dto = Undefined \<and> u_startAt dto = Some (Date s) \<and> a_closedAt a = Some t \<and>
        s \<le> t \<and>
        \<not> dateLe (case u_endAt dto of Some d \<Rightarrow> d | None \<Rightarrow> Date (a_endAt a)) (Date s) \<longrightarrow>
         update st i dto cids =
           (Inl (BadRequestException ''Closed date must be before start date''), st)
         \<and> revalidateDates (dto\<lparr>u_closedAt := Null\<rparr>) a = Inr ())"
proof (intro conjI allI impI)
  fix r st' assume "update st i (dto\<lparr>u_closedAt := Null\<rparr>) cids = (Inr r, st')"
  from update_success_closedAt [OF a this]
  show "map_option a_closedAt (findUniqueById st' i) = Some None" by (simp add: updateData_def)
next
  fix r st' assume "update st i (dto\<lparr>u_closedAt := Undefined\<rparr>) cids = (Inr r, st')"
  from update_success_closedAt [OF a this]
  show "map_option a_closedAt (findUniqueById st' i) = Some (a_closedAt a)"
    by (simp add: updateData_def)
next
  assume d: "a_startAt a < a_endAt a"
  let ?dto = "emptyUpdate\<lparr>u_closedAt := Null\<rparr>"
  from update_only_closedAt_Null [OF a d, of cids]
  obtain r st' where u: "update st i ?dto cids = (Inr r, st')" by blast
  from update_success_closedAt [OF a u]
  have "map_option a_closedAt (findUniqueById st' i) = Some None" by (simp add: updateData_def)
  with u show "\<exists>r st'. update st i ?dto cids = (Inr r, st') \<and>
           map_option a_closedAt (findUniqueById st' i) = Some None" by blast
next
  from update_emptyUpdate [OF a, of cids]
  obtain r st' where u: "update st i emptyUpdate cids = (Inr r, st')" by blast
  from update_success_closedAt [OF a u]
  have "map_option a_closedAt (findUniqueById st' i) = Some (a_closedAt a)"
    by (simp add: emptyUpdate_def updateData_def)
  with u show "\<exists>r st'. update st i emptyUpdate cids = (Inr r, st') \<and>
           map_option a_closedAt (findUniqueById st' i) = Some (a_closedAt a)" by blast
next
  assume d: "a_startAt a < a_endAt a \<and> a_closedAt a \<noteq> None"
  let ?dto = "emptyUpdate\<lparr>u_closedAt := Null\<rparr>"
  let ?s1 = "snd (update st i ?dto cids)" and ?s2 = "snd (update st i emptyUpdate cids)"
  from d update_only_closedAt_Null [OF a, of cids]
  obtain r1 where u1: "update st i ?dto cids = (Inr r1, ?s1)" by auto
  from update_emptyUpdate [OF a, of cids]
  obtain r2 where u2: "update st i emptyUpdate cids = (Inr r2, ?s2)" by auto
  from update_success_closedAt [OF a u1]
  have c1: "map_option a_closedAt (findUniqueById ?s1 i) = Some None"
    by (simp add: updateData_def)
  from update_success_closedAt [OF a u2]
  have c2: "map_option a_closedAt (findUniqueById ?s2 i) = Some (a_closedAt a)"
    by (simp add: emptyUpdate_def updateData_def)
  show "?s1 \<noteq> ?s2"
  proof
    assume "?s1 = ?s2"
    with c1 c2 have "a_closedAt a = None" by simp
    with d show False by simp
  qed
next
  show "(revalidateDates dto a = Inr ()) =
        ((u_startAt dto = None \<and> u_endAt dto = None \<and> u_closedAt dto = Undefined) \<or>
         (\<not> dateLe (case u_endAt dto of Some d \<Rightarrow> d | None \<Rightarrow> Date (a_endAt a))
                    (case u_startAt dto of Some d \<Rightarrow> d | None \<Rightarrow> Date (a_startAt a)) \<and>
          (case u_closedAt dto of
             Undefined \<Rightarrow>
               (case a_closedAt a of
                  None \<Rightarrow> True
                | Some t \<Rightarrow>
                    \<not> dateGe (Date t)
                        (case u_startAt dto of Some d \<Rightarrow> d | None \<Rightarrow> Date (a_startAt a)))
           | Null \<Rightarrow> True
           | Present d \<Rightarrow>
               \<not> dateGe d (case u_startAt dto of Some d \<Rightarrow> d | None \<Rightarrow> Date (a_startAt a)))))"
    by (rule revalidateDates_explicit)
next
  fix e assume "revalidateDates dto a = Inl e"
  then show "update st i dto cids = (Inl e, st)" by (rule update_dates_fail [OF a])
next
  assume h: "u_closedAt dto = Undefined \<and> u_startAt dto = Some (Date s) \<and> a_closedAt a = Some t \<and>
        s \<le> t \<and>
        \<not> dateLe (case u_endAt dto of Some d \<Rightarrow> d | None \<Rightarrow> Date (a_endAt a)) (Date s)"
  then have "revalidateDates dto a =
           Inl (BadRequestException ''Closed date must be before start date'')"
    using revalidateDates_stored_closedAt [of dto s a t] by blast
  then have 1: "update st i dto cids =
           (Inl (BadRequestException ''Closed date must be before start date''), st)"
    by (rule update_dates_fail [OF a])
  from 1 show "update st i dto cids =
           (Inl (BadRequestException ''Closed date must be before start date''), st)" .
next
  assume h: "u_closedAt dto = Undefined \<and> u_startAt dto = Some (Date s) \<and> a_closedAt a = Some t \<and>
        s \<le> t \<and>
        \<not> dateLe (case u_endAt dto of Some d \<Rightarrow> d | None \<Rightarrow> Date (a_endAt a)) (Date s)"
  then show "revalidateDates (dto\<lparr>u_closedAt := Null\<rparr>) a = Inr ()"
    by (simp add: revalidateDates_explicit)
qed

lemma sample_update_startAt_clear:
  "update sampleStore ''a1'' (emptyUpdate\<lparr>u_startAt := Some (Date 3), u_closedAt := Null\<rparr>)
     sampleIds =
     (Inr (Some (sampleActivity\<lparr>a_startAt := 3, a_closedAt := None\<rparr>,
                 activityContents sampleStore)),
      sampleStore\<lparr>activities := [sampleActivity\<lparr>a_startAt := 3, a_closedAt := None\<rparr>]\<rparr>)"
  by (simp add: update_def findOneById_def findUniqueById_def revalidateDates_def
        mergedClosedAt_def validateDates_def orElse_def strOrElse_def emptyUpdate_def
        recheckSlug_def revalidateContents_def refusedWrite_def fitsActivity_def
        transaction_def updateActivityRow_def updateData_def writtenDate_def contentsOf_def
        sampleStore_def sampleActivity_def)

theorem update_closedAt_null_clears_omitted_keeps_witness:
  "findUniqueById sampleStore ''a1'' = Some sampleActivity
   \<and> map_option a_closedAt
         (findUniqueById (snd (update sampleStore ''a1'' (emptyUpdate\<lparr>u_closedAt := Null\<rparr>) sampleIds))
            ''a1'') = Some None
   \<and> map_option a_closedAt
         (findUniqueById (snd (update sampleStore ''a1'' emptyUpdate sampleIds)) ''a1'') = Some (Some 5)
   \<and> snd (update sampleStore ''a1'' (emptyUpdate\<lparr>u_closedAt := Null\<rparr>) sampleIds) \<noteq>
       snd (update sampleStore ''a1'' emptyUpdate sampleIds)
   \<and> update sampleStore ''a1'' (emptyUpdate\<lparr>u_startAt := Some (Date 3)\<rparr>) sampleIds =
       (Inl (BadRequestException ''Closed date must be before start date''), sampleStore)
   \<and> revalidateDates (emptyUpdate\<lparr>u_startAt := Some (Date 3), u_closedAt := Null\<rparr>)
         sampleActivity = Inr ()
   \<and> map_option a_closedAt
         (findUniqueById
            (snd (update sampleStore ''a1''
                    (emptyUpdate\<lparr>u_startAt := Some (Date 3), u_closedAt := Null\<rparr>) sampleIds))
            ''a1'') = Some None"
proof -
  have h: "findUniqueById sampleStore ''a1'' = Some sampleActivity"
    by (simp add: findUniqueById_def sampleStore_def sampleActivity_def)
  have d: "a_startAt sampleActivity < a_endAt sampleActivity"
          "a_closedAt sampleActivity = Some 5" "a_endAt sampleActivity = 20"
    by (simp_all add: sampleActivity_def)
  have e: "u_closedAt (emptyUpdate\<lparr>u_startAt := Some (Date 3)\<rparr>) = Undefined"
          "u_endAt (emptyUpdate\<lparr>u_startAt := Some (Date 3)\<rparr>) = None"
          "(emptyUpdate\<lparr>u_startAt := Some (Date 3)\<rparr>)\<lparr>u_closedAt := Null\<rparr> =
           emptyUpdate\<lparr>u_startAt := Some (Date 3), u_closedAt := Null\<rparr>"
    by (simp_all add: emptyUpdate_def)
  from update_closedAt_null_clears_omitted_keeps [OF h, of emptyUpdate sampleIds 3 5] d h
  have 1: "map_option a_closedAt
         (findUniqueById (snd (update sampleStore ''a1'' (emptyUpdate\<lparr>u_closedAt := Null\<rparr>) sampleIds))
            ''a1'') = Some None"
    and 2: "map_option a_closedAt
         (findUniqueById (snd (update sampleStore ''a1'' emptyUpdate sampleIds)) ''a1'') = Some (Some 5)"
    and 3: "snd (update sampleStore ''a1'' (emptyUpdate\<lparr>u_closedAt := Null\<rparr>) sampleIds) \<noteq>
       snd (update sampleStore ''a1'' emptyUpdate sampleIds)"
    by auto
  from update_closedAt_null_clears_omitted_keeps
         [OF h, of "emptyUpdate\<lparr>u_startAt := Some (Date 3)\<rparr>" sampleIds 3 5] d e
  have 4: "update sampleStore ''a1'' (emptyUpdate\<lparr>u_startAt := Some (Date 3)\<rparr>) sampleIds =
       (Inl (BadRequestException ''Closed date must be before start date''), sampleStore)"
    and 5: "revalidateDates (emptyUpdate\<lparr>u_startAt := Some (Date 3), u_closedAt := Null\<rparr>)
         sampleActivity = Inr ()"
    by simp_all
  have 6: "map_option a_closedAt
         (findUniqueById
            (snd (update sampleStore ''a1''
                    (emptyUpdate\<lparr>u_startAt := Some (Date 3), u_closedAt := Null\<rparr>) sampleIds))
            ''a1'') = Some None"
    by (simp add: sample_update_startAt_clear findUniqueById_def sampleActivity_def)
  from h 1 2 3 4 5 6 show ?thesis by simp
qed

section \<open>Update: running it twice\<close>

text \<open>The field update is idempotent, and the checks do not tell the updated row from the old.\<close>

lemma updateData_idem: "updateData dto (updateData dto a) = updateData dto a"
  by (cases "u_closedAt dto")
     (simp_all add: updateData_def orElse_def strOrElse_def writtenDate_def
        split: option.splits date.splits)

lemma updateActivityRow_idem:
  "updateActivityRow i dto (updateActivityRow i dto rows) = updateActivityRow i dto rows"
  by (induction rows) (simp_all add: updateActivityRow_def updateData_idem a_id_updateData)

lemma revalidateDates_updateData:
  "revalidateDates dto (updateData dto a) = revalidateDates dto a"
  by (cases "u_closedAt dto")
     (simp_all add: revalidateDates_def mergedClosedAt_def updateData_def orElse_def
        writtenDate_def split: option.splits date.splits)

lemma revalidateContents_updateData:
  "revalidateContents dto (updateData dto a) = revalidateContents dto a"
  by (simp add: revalidateContents_def updateData_def orElse_def split: option.splits)

lemma recheckSlug_updateData:
  "recheckSlug st' dto (updateData dto a) = Inr ()"
  by (simp add: recheckSlug_def updateData_def strOrElse_def split: option.splits)

text \<open>Upserts: keys stay, and a row written for a content is a fixed point of its update.\<close>

lemma updateContent_idem: "updateContent c (updateContent c r) = updateContent c r"
  by (simp add: updateContent_def split: option.splits)

lemma sameKey_updateContent: "sameKey i l (updateContent c r) = sameKey i l r"
  by (simp add: sameKey_def updateContent_def)

lemma updateContent_newContent: "updateContent c (newContent i cid c) = newContent i cid c"
  by (simp add: updateContent_def newContent_def split: option.splits)

lemma sameKey_newContent: "sameKey i l (newContent i cid c) = (dto_lang c = l)"
  by (auto simp: sameKey_def newContent_def)

lemma sameKey_touch: "sameKey i l (touch i c r) = sameKey i l r"
  by (simp add: touch_def sameKey_updateContent)

lemma touch_fixed: "sameKey i (dto_lang c) (touch i c r) \<Longrightarrow> updateContent c (touch i c r) = touch i c r"
  by (simp add: touch_def updateContent_idem split: if_splits)

lemma upsert_present:
  "list_ex (sameKey i (dto_lang c)) rows \<Longrightarrow> upsert i cid c rows = map (touch i c) rows"
  by (simp add: upsert_def touch_def)

lemma upsert_absent:
  "\<not> list_ex (sameKey i (dto_lang c)) rows \<Longrightarrow> upsert i cid c rows = rows @ [newContent i cid c]"
  by (simp add: upsert_def)

lemma list_ex_map_touch:
  "list_ex (sameKey i l) (map (touch i c) rows) = list_ex (sameKey i l) rows"
  by (induction rows) (simp_all add: sameKey_touch)

lemma settled_upsert: "settled i c (upsert i cid c rows)"
proof (cases "list_ex (sameKey i (dto_lang c)) rows")
  case True
  have "\<forall>r \<in> set (map (touch i c) rows). sameKey i (dto_lang c) r \<longrightarrow> updateContent c r = r"
    using touch_fixed by fastforce
  with True show ?thesis
    by (simp only: upsert_present [OF True] settled_def list_ex_map_touch simp_thms)
next
  case False
  then have "\<forall>r \<in> set rows. \<not> sameKey i (dto_lang c) r" by (simp add: list_ex_iff)
  then have "settled i c (rows @ [newContent i cid c])"
    by (simp add: settled_def sameKey_newContent updateContent_newContent)
  then show ?thesis by (simp only: upsert_absent [OF False])
qed

lemma settled_upsert_other:
  assumes ne: "dto_lang c' \<noteq> dto_lang c" and s: "settled i c rows"
  shows "settled i c (upsert i cid c' rows)"
proof (cases "list_ex (sameKey i (dto_lang c')) rows")
  case True
  have t: "touch i c' r = r" if "sameKey i (dto_lang c) r" for r
    using that ne by (simp add: touch_def sameKey_def)
  have "\<forall>r \<in> set (map (touch i c') rows). sameKey i (dto_lang c) r \<longrightarrow> updateContent c r = r"
  proof (intro ballI impI)
    fix r assume r: "r \<in> set (map (touch i c') rows)" and k: "sameKey i (dto_lang c) r"
    from r obtain r0 where r0: "r0 \<in> set rows" "r = touch i c' r0" by auto
    with k have "sameKey i (dto_lang c) r0" by (simp add: sameKey_touch)
    with r0 t s show "updateContent c r = r" by (simp add: settled_def)
  qed
  with s show ?thesis
    by (simp only: upsert_present [OF True] settled_def list_ex_map_touch simp_thms)
next
  case False
  from s ne have "settled i c (rows @ [newContent i cid c'])"
    by (simp add: settled_def sameKey_newContent)
  then show ?thesis by (simp only: upsert_absent [OF False])
qed

lemma settled_upsertAll_other:
  "dto_lang c \<notin> dto_lang ` set cs \<Longrightarrow> settled i c rows \<Longrightarrow>
   settled i c (upsertAll i cids k cs rows)"
  by (induction cs arbitrary: rows k) (auto simp: settled_upsert_other)

lemma settled_upsertAll:
  "distinct (map dto_lang cs) \<Longrightarrow> c \<in> set cs \<Longrightarrow> settled i c (upsertAll i cids k cs rows)"
proof (induction cs arbitrary: rows k)
  case Nil
  then show ?case by simp
next
  case (Cons x xs)
  show ?case
  proof (cases "c = x")
    case True
    from Cons.prems(1) have "dto_lang x \<notin> dto_lang ` set xs" by simp
    from settled_upsertAll_other [OF this settled_upsert] True
    show ?thesis by simp
  next
    case False
    with Cons.prems have "c \<in> set xs" "distinct (map dto_lang xs)" by simp_all
    from Cons.IH [OF this(2) this(1)] show ?thesis by simp
  qed
qed

lemma upsert_settled:
  assumes "settled i c rows"
  shows "upsert i cid c rows = rows"
proof -
  from assms have ex: "list_ex (sameKey i (dto_lang c)) rows"
    and fx: "\<forall>r \<in> set rows. sameKey i (dto_lang c) r \<longrightarrow> updateContent c r = r"
    by (simp_all add: settled_def)
  from fx have "map (touch i c) rows = rows"
    by (intro map_idI) (simp add: touch_def)
  with ex show ?thesis by (simp only: upsert_present)
qed

lemma upsertAll_settled:
  "\<forall>c \<in> set cs. settled i c rows \<Longrightarrow> upsertAll i cids k cs rows = rows"
  by (induction cs arbitrary: k) (simp_all add: upsert_settled)

lemma upsertAll_idem:
  "distinct (map dto_lang cs) \<Longrightarrow>
   upsertAll i cids' k' cs (upsertAll i cids k cs rows) = upsertAll i cids k cs rows"
  by (rule upsertAll_settled) (simp add: settled_upsertAll)


lemma transaction_idem:
  assumes "revalidateContents dto a = Inr ()"
  shows "transaction (transaction st i dto cids) i dto cids' = transaction st i dto cids"
proof (cases "u_contents dto")
  case None
  then show ?thesis by (simp add: transaction_def updateActivityRow_idem)
next
  case (Some cs)
  with assms have "distinct (map dto_lang cs)"
    by (simp add: revalidateContents_def validateContentLanguages_Inr)
  with Some show ?thesis
    by (simp add: transaction_def updateActivityRow_idem upsertAll_idem)
qed

lemma update_failure_any_ids:
  assumes u: "update st i dto cids = (Inl e, st')"
  shows "update st i dto cids' = (Inl e, st)"
proof (cases "findUniqueById st i")
  case None
  from update_not_found [OF None, of dto cids] update_not_found [OF None, of dto cids'] u
  show ?thesis by simp
next
  case (Some a)
  show ?thesis
  proof (cases "revalidateDates dto a")
    case (Inl x)
    from update_dates_fail [OF Some Inl, of cids] update_dates_fail [OF Some Inl, of cids'] u
    show ?thesis by simp
  next
    case d: (Inr v)
    then have d': "revalidateDates dto a = Inr ()" by simp
    show ?thesis
    proof (cases "recheckSlug st dto a")
      case (Inl x)
      from update_slug_fail [OF Some d' Inl, of cids] update_slug_fail [OF Some d' Inl, of cids'] u
      show ?thesis by simp
    next
      case s: (Inr v')
      then have s': "recheckSlug st dto a = Inr ()" by simp
      show ?thesis
      proof (cases "revalidateContents dto a")
        case (Inl x)
        from update_contents_fail [OF Some d' s' Inl, of cids]
             update_contents_fail [OF Some d' s' Inl, of cids'] u
        show ?thesis by simp
      next
        case (Inr v'')
        then have c': "revalidateContents dto a = Inr ()" by simp
        show ?thesis
        proof (cases "refusedWrite dto")
          case None
          from update_ok [OF Some d' s' c' None, of cids] u show ?thesis by simp
        next
          case (Some x)
          from update_refused [OF \<open>findUniqueById st i = Some a\<close> d' s' c' Some, of cids]
               update_refused [OF \<open>findUniqueById st i = Some a\<close> d' s' c' Some, of cids'] u
          show ?thesis by simp
        qed
      qed
    qed
  qed
qed

text \<open>
  Claim C9.  Running \<open>update\<close> a second time with the same payload, whatever identifiers
  are generated for it, leaves the store of the first run as it is: in particular the
  stored content rows are the same as after one run, no row is added.  If the first run
  succeeded, the second succeeds with the same result.
\<close>

theorem update_twice_same_rows:
  "snd (update (snd (update st i dto cids)) i dto cids') = snd (update st i dto cids)
   \<and> activityContents (snd (update (snd (update st i dto cids)) i dto cids')) =
       activityContents (snd (update st i dto cids))
   \<and> (\<forall>r. fst (update st i dto cids) = Inr r \<longrightarrow>
          fst (update (snd (update st i dto cids)) i dto cids') = Inr r)"
proof -
  let ?st1 = "snd (update st i dto cids)"
  have main: "snd (update ?st1 i dto cids') = ?st1 \<and>
        (\<forall>r. fst (update st i dto cids) = Inr r \<longrightarrow> fst (update ?st1 i dto cids') = Inr r)"
  proof (cases "fst (update st i dto cids)")
    case (Inl e)
    then have u: "update st i dto cids = (Inl e, ?st1)" by (simp add: prod_eq_iff)
    from update_failure_any_ids [OF u] have "?st1 = st" by simp
    with update_failure_any_ids [OF u, of cids'] Inl show ?thesis by simp
  next
    case (Inr r)
    show ?thesis
    proof (cases rule: update_cases [where st=st and i=i and dto=dto and cids=cids])
      case not_found
      with Inr show ?thesis by simp
    next
      case (failed a e)
      with Inr show ?thesis by simp
    next
      case (ok a)
      let ?t = "transaction st i dto cids"
      from ok have st1: "?st1 = ?t" by simp
      from ok have f: "findUniqueById ?t i = Some (updateData dto a)"
        by (simp add: findUniqueById_transaction)
      from update_ok [OF f, of dto cids'] ok
      have "update ?t i dto cids' =
              (Inr (Some (updateData dto (updateData dto a),
                          contentsOf (transaction ?t i dto cids') i)),
               transaction ?t i dto cids')"
        by (simp add: revalidateDates_updateData recheckSlug_updateData
              revalidateContents_updateData)
      with ok show ?thesis
        by (simp add: transaction_idem [of dto a] updateData_idem)
    qed
  qed
  then show ?thesis by simp
qed

lemma sample_update_once:
  "update sampleStore ''a1'' sampleUpdate sampleIds =
     (Inr (Some (sampleActivity,
        [\<lparr>ac_id = ''r1'', ac_activityId = ''a1'', ac_lang = ''en-us'', ac_title = ''Hi'',
          ac_description = None\<rparr>,
         \<lparr>ac_id = ''r2'', ac_activityId = ''a1'', ac_lang = ''fr-fr'', ac_title = ''Bonjour'',
          ac_description = Some ''texte''\<rparr>,
         \<lparr>ac_id = ''cc'', ac_activityId = ''a1'', ac_lang = ''zh-tw'', ac_title = ''Ni hao'',
          ac_description = Some ''d''\<rparr>])),
      sampleStore\<lparr>activityContents :=
        [\<lparr>ac_id = ''r1'', ac_activityId = ''a1'', ac_lang = ''en-us'', ac_title = ''Hi'',
          ac_description = None\<rparr>,
         \<lparr>ac_id = ''r2'', ac_activityId = ''a1'', ac_lang = ''fr-fr'', ac_title = ''Bonjour'',
          ac_description = Some ''texte''\<rparr>,
         \<lparr>ac_id = ''cc'', ac_activityId = ''a1'', ac_lang = ''zh-tw'', ac_title = ''Ni hao'',
          ac_description = Some ''d''\<rparr>]\<rparr>)"
  by code_simp

theorem update_twice_same_rows_witness:
  "(\<exists>r. fst (update sampleStore ''a1'' sampleUpdate sampleIds) = Inr r \<and>
        fst (update (snd (update sampleStore ''a1'' sampleUpdate sampleIds)) ''a1'' sampleUpdate
               otherIds) = Inr r)
   \<and> map ac_lang (activityContents
         (snd (update (snd (update sampleStore ''a1'' sampleUpdate sampleIds)) ''a1'' sampleUpdate
                 otherIds))) = [''en-us'', ''fr-fr'', ''zh-tw'']"
  using update_twice_same_rows [of sampleStore "''a1''" sampleUpdate sampleIds otherIds]
  by (simp add: sample_update_once)

section \<open>Authorization and login\<close>

text \<open>
  Claim C6.  The gate allows a request whose route declares no required-permission list;
  it denies when a list is declared and there is no authenticated caller; otherwise it
  allows exactly when every permission of the declared list is in the permission list the
  caller's token carries.
\<close>

theorem canActivate_gate:
  "canActivate None user = True
   \<and> canActivate (Some required) None = False
   \<and> canActivate (Some required) (Some u) = (\<forall>p \<in> set required. p \<in> set (au_permissions u))"
  by (simp add: canActivate_def list_all_iff)

theorem canActivate_gate_witness:
  "canActivate None None = True
   \<and> canActivate (Some [''activity:manage'']) None = False
   \<and> canActivate (Some [''activity:manage''])
        (Some (sampleUser [''activity:view'', ''activity:manage''])) = True
   \<and> canActivate (Some [''activity:manage'', ''activity:delete''])
        (Some (sampleUser [''activity:view'', ''activity:manage''])) = False"
  using canActivate_gate [of None "[''activity:manage'']"
          "sampleUser [''activity:view'', ''activity:manage'']"]
        canActivate_gate [of None "[''activity:manage'', ''activity:delete'']"
          "sampleUser [''activity:view'', ''activity:manage'']"]
  by (simp add: sampleUser_def)

lemma foldl_setAdd:
  "distinct acc \<Longrightarrow>
   distinct (foldl setAdd acc xs) \<and> set (foldl setAdd acc xs) = set acc \<union> set xs"
  by (induction xs arbitrary: acc) (auto simp: setAdd_def)

text \<open>
  Claim C10.  The permission list computed for a member has no duplicates, whatever the
  roles grant, and its elements are exactly the permission codes of the member's roles.
\<close>

theorem getUserPermissions_no_duplicates:
  "distinct (getUserPermissions db memberId)
   \<and> set (getUserPermissions db memberId) =
       set (List.map_filter (permissionCode db) (rolePermissionsOf db memberId))"
  using foldl_setAdd [of "[]" "List.map_filter (permissionCode db) (rolePermissionsOf db memberId)"]
  by (simp add: getUserPermissions_def)

theorem getUserPermissions_no_duplicates_witness:
  "getUserPermissions sampleAuthDb ''m1'' = [''activity:edit'', ''activity:view'']
   \<and> distinct (getUserPermissions sampleAuthDb ''m1'')
   \<and> List.map_filter (permissionCode sampleAuthDb) (rolePermissionsOf sampleAuthDb ''m1'') =
       [''activity:edit'', ''activity:view'', ''activity:edit'']"
  using getUserPermissions_no_duplicates [of sampleAuthDb "''m1''"]
  by (simp add: getUserPermissions_def rolePermissionsOf_def permissionCode_def sampleAuthDb_def setAdd_def)

lemma catchLoginError_Unauthorized: "\<exists>m. catchLoginError e = UnauthorizedException m"
  by (cases e) (simp_all add: catchLoginError_def)

lemma catchLoginError_keeps:
  "catchLoginError (UnauthorizedException m) = UnauthorizedException m"
  by (simp add: catchLoginError_def)

lemma loginWithGithub_fst:
  "fst (loginWithGithub w db code) =
     (case fst (tryLoginWithGithub w db code) of
        Inl e \<Rightarrow> Inl (catchLoginError e)
      | Inr t \<Rightarrow> Inr t)"
  by (simp add: loginWithGithub_def split: prod.splits sum.splits)

lemma try_exchange_fails:
  "w_validateAuthorizationCode w code = Inl e \<Longrightarrow> tryLoginWithGithub w db code = (Inl e, db)"
  by (simp add: tryLoginWithGithub_def)

lemma try_fetch_fails:
  "w_validateAuthorizationCode w code = Inr t \<Longrightarrow>
   promiseAll3 (fetchGithub (w_fetchUser w t)) (fetchGithub (w_fetchEmails w t))
               (fetchGithub (w_fetchSocial w t)) = Inl e \<Longrightarrow>
   tryLoginWithGithub w db code = (Inl e, db)"
  by (simp add: tryLoginWithGithub_def)

lemma try_no_email:
  "w_validateAuthorizationCode w code = Inr t \<Longrightarrow>
   promiseAll3 (fetchGithub (w_fetchUser w t)) (fetchGithub (w_fetchEmails w t))
               (fetchGithub (w_fetchSocial w t)) = Inr (githubUser, githubEmails, socialAccounts) \<Longrightarrow>
   effectiveEmail githubUser githubEmails = None \<Longrightarrow>
   tryLoginWithGithub w db code =
     (Inl (UnauthorizedException ''Unable to obtain a valid email address from GitHub''), db)"
  by (simp add: tryLoginWithGithub_def)

lemma promiseAll3_fails:
  "a = Inl e \<or> b = Inl e \<or> c = Inl e \<Longrightarrow> \<exists>e'. promiseAll3 a b c = Inl e'"
  by (auto simp: promiseAll3_def split: sum.splits)

text \<open>
  Claim C8.  Whatever \<open>loginWithGithub\<close> fails with is an authentication failure
  (\<open>UnauthorizedException\<close>).  Any failure inside the flow surfaces as one: a failed code
  exchange, a failed request to the provider, a missing email.  A failure that already is
  an authentication failure goes through unchanged, as the missing email does with its
  own message.
\<close>

theorem loginWithGithub_failures_are_unauthorized:
  "(\<forall>e. fst (loginWithGithub w db code) = Inl e \<longrightarrow> (\<exists>m. e = UnauthorizedException m))
   \<and> (\<forall>e. fst (tryLoginWithGithub w db code) = Inl e \<longrightarrow>
          (\<exists>m. fst (loginWithGithub w db code) = Inl (UnauthorizedException m)))
   \<and> (\<forall>m. fst (tryLoginWithGithub w db code) = Inl (UnauthorizedException m) \<longrightarrow>
          fst (loginWithGithub w db code) = Inl (UnauthorizedException m))
   \<and> (\<forall>e. w_validateAuthorizationCode w code = Inl e \<longrightarrow>
          (\<exists>m. fst (loginWithGithub w db code) = Inl (UnauthorizedException m)))
   \<and> (\<forall>t e. w_validateAuthorizationCode w code = Inr t \<and>
            (fetchGithub (w_fetchUser w t) = Inl e \<or> fetchGithub (w_fetchEmails w t) = Inl e \<or>
             fetchGithub (w_fetchSocial w t) = Inl e) \<longrightarrow>
          (\<exists>m. fst (loginWithGithub w db code) = Inl (UnauthorizedException m)))
   \<and> (\<forall>t githubUser githubEmails socialAccounts.
          w_validateAuthorizationCode w code = Inr t \<and>
          fetchGithub (w_fetchUser w t) = Inr githubUser \<and>
          fetchGithub (w_fetchEmails w t) = Inr githubEmails \<and>
          fetchGithub (w_fetchSocial w t) = Inr socialAccounts \<and>
          effectiveEmail githubUser githubEmails = None \<longrightarrow>
          fst (loginWithGithub w db code) =
            Inl (UnauthorizedException ''Unable to obtain a valid email address from GitHub''))"
proof (intro conjI allI impI)
  fix e assume "fst (loginWithGithub w db code) = Inl e"
  then show "\<exists>m. e = UnauthorizedException m"
    using catchLoginError_Unauthorized
    by (auto simp: loginWithGithub_fst split: sum.splits)
next
  fix e assume "fst (tryLoginWithGithub w db code) = Inl e"
  then show "\<exists>m. fst (loginWithGithub w db code) = Inl (UnauthorizedException m)"
    using catchLoginError_Unauthorized [of e] by (auto simp: loginWithGithub_fst)
next
  fix m assume "fst (tryLoginWithGithub w db code) = Inl (UnauthorizedException m)"
  then show "fst (loginWithGithub w db code) = Inl (UnauthorizedException m)"
    by (simp add: loginWithGithub_fst catchLoginError_keeps)
next
  fix e assume "w_validateAuthorizationCode w code = Inl e"
  from try_exchange_fails [OF this, of db]
  show "\<exists>m. fst (loginWithGithub w db code) = Inl (UnauthorizedException m)"
    using catchLoginError_Unauthorized [of e] by (auto simp: loginWithGithub_fst)
next
  fix t e
  assume a: "w_validateAuthorizationCode w code = Inr t \<and>
            (fetchGithub (w_fetchUser w t) = Inl e \<or> fetchGithub (w_fetchEmails w t) = Inl e \<or>
             fetchGithub (w_fetchSocial w t) = Inl e)"
  then obtain e' where "promiseAll3 (fetchGithub (w_fetchUser w t)) (fetchGithub (w_fetchEmails w t))
               (fetchGithub (w_fetchSocial w t)) = Inl e'"
    using promiseAll3_fails by blast
  from try_fetch_fails [OF _ this, of code db] a
  show "\<exists>m. fst (loginWithGithub w db code) = Inl (UnauthorizedException m)"
    using catchLoginError_Unauthorized [of e'] by (auto simp: loginWithGithub_fst)
next
  fix t githubUser githubEmails socialAccounts
  assume a: "w_validateAuthorizationCode w code = Inr t \<and>
          fetchGithub (w_fetchUser w t) = Inr githubUser \<and>
          fetchGithub (w_fetchEmails w t) = Inr githubEmails \<and>
          fetchGithub (w_fetchSocial w t) = Inr socialAccounts \<and>
          effectiveEmail githubUser githubEmails = None"
  then have "promiseAll3 (fetchGithub (w_fetchUser w t)) (fetchGithub (w_fetchEmails w t))
               (fetchGithub (w_fetchSocial w t)) = Inr (githubUser, githubEmails, socialAccounts)"
    by (simp add: promiseAll3_def)
  from try_no_email [OF _ this, of code db] a
  show "fst (loginWithGithub w db code) =
            Inl (UnauthorizedException ''Unable to obtain a valid email address from GitHub'')"
    by (simp add: loginWithGithub_fst catchLoginError_keeps)
qed


lemma sample_login_exchange_fails:
  "loginWithGithub (sampleWorld True None None) sampleAuthDb ''bad'' =
     (Inl (UnauthorizedException ''GitHub Authentication Failed: fetch failed''), sampleAuthDb)"
  by (simp add: loginWithGithub_def tryLoginWithGithub_def sampleWorld_def sampleExchange_def
        catchLoginError_def messageOf_def)

lemma sample_login_provider_error:
  "loginWithGithub (sampleWorld False None None) sampleAuthDb ''good'' =
     (Inl (UnauthorizedException ''GitHub Authentication Failed: GitHub API error: Forbidden''),
      sampleAuthDb)"
  by (simp add: loginWithGithub_def tryLoginWithGithub_def sampleWorld_def sampleExchange_def
        sampleUserResponse_def promiseAll3_def fetchGithub_def catchLoginError_def messageOf_def)

lemma sample_try_no_email:
  "tryLoginWithGithub (sampleWorld True None None) sampleAuthDb ''good'' =
     (Inl (UnauthorizedException ''Unable to obtain a valid email address from GitHub''),
      sampleAuthDb)"
  by (simp add: tryLoginWithGithub_def sampleWorld_def sampleExchange_def
        sampleUserResponse_def sampleEmailsResponse_def sampleSocialResponse_def
        promiseAll3_def fetchGithub_def effectiveEmail_def primaryEmail_def sampleProfile_def)

theorem loginWithGithub_failures_are_unauthorized_witness:
  "fst (loginWithGithub (sampleWorld True None None) sampleAuthDb ''bad'') =
     Inl (UnauthorizedException ''GitHub Authentication Failed: fetch failed'')
   \<and> fst (loginWithGithub (sampleWorld False None None) sampleAuthDb ''good'') =
     Inl (UnauthorizedException ''GitHub Authentication Failed: GitHub API error: Forbidden'')
   \<and> fst (tryLoginWithGithub (sampleWorld True None None) sampleAuthDb ''good'') =
     Inl (UnauthorizedException ''Unable to obtain a valid email address from GitHub'')
   \<and> fst (loginWithGithub (sampleWorld True None None) sampleAuthDb ''good'') =
     Inl (UnauthorizedException ''Unable to obtain a valid email address from GitHub'')"
  using loginWithGithub_failures_are_unauthorized
          [of "sampleWorld True None None" sampleAuthDb "''good''"]
  by (simp add: sample_login_exchange_fails sample_login_provider_error sample_try_no_email)

lemma devLogin_refuses_in_production:
  "w_NODE_ENV w = Some ''production'' \<Longrightarrow>
   devLogin w db email = (Inl (Error ''This endpoint is only available in development''), db)"
  by (simp add: devLogin_def)

lemma devLogin_proceeds_otherwise:
  "w_NODE_ENV w \<noteq> Some ''production'' \<Longrightarrow>
   devLogin w db email =
     (let (member, db') = findOrCreateDevMember w db email;
          permissions = getUserPermissions db' (m_id member);
          payload = \<lparr>jp_sub = m_id member, jp_email = m_email member,
                     jp_permissions = permissions\<rparr>
      in case w_signAsync w payload of
           Inl e \<Rightarrow> (Inl e, db')
         | Inr access_token \<Rightarrow>
             (Inr \<lparr>dl_access_token = access_token,
                   dl_user = \<lparr>du_id = m_id member, du_email = m_email member,
                              du_permissions = permissions\<rparr>\<rparr>,
              db'))"
  by (simp add: devLogin_def)

lemma showInt_sample: "showInt 1700000000000 = ''1700000000000''"
  by (simp add: showInt_def showNat.simps digitChar_def)

text \<open>
  Claim C7 asks \<open>devLogin\<close> to refuse in every execution mode but development.  The
  source refuses in production only (\<open>devLogin_refuses_in_production\<close>) and proceeds in
  every other mode (\<open>devLogin_proceeds_otherwise\<close>): with \<^verbatim>\<open>NODE_ENV\<close> set to
  \<^verbatim>\<open>test\<close> it creates a member for an unknown address and issues a token.
\<close>

theorem devLogin_runs_in_test_mode:
  "w_NODE_ENV (sampleWorld True None (Some ''test'')) = Some ''test''
   \<and> fst (devLogin (sampleWorld True None (Some ''test'')) sampleAuthDb ''dev@example.org'') =
       Inr \<lparr>dl_access_token = ''jwt:cc'',
            dl_user = \<lparr>du_id = ''cc'', du_email = ''dev@example.org'', du_permissions = []\<rparr>\<rparr>
   \<and> map m_email (members
         (snd (devLogin (sampleWorld True None (Some ''test'')) sampleAuthDb ''dev@example.org''))) =
       [''ann@example.org'', ''dev@example.org'']
   \<and> map mp_providerUserId (memberProviders
         (snd (devLogin (sampleWorld True None (Some ''test'')) sampleAuthDb ''dev@example.org''))) =
       [''dev_1700000000000'']"
  by (simp add: devLogin_def findOrCreateDevMember_def findMemberByEmail_def sampleWorld_def
        sampleAuthDb_def sampleSign_def sampleIds_def getUserPermissions_def rolePermissionsOf_def
        localPart_def showInt_sample Let_def)

end
